theory Spec2Isabelle
  imports Complex_Main "HOL-Library.AList" "HOL-Library.DAList"
begin

section \<open>JavaScript numbers\<close>

text \<open>
  The server is TypeScript; every numeric value is a JavaScript \<^verbatim>\<open>number\<close>. The model keeps
  the three non-finite values apart from the finite ones, so that a division by zero, a
  comparison with \<^verbatim>\<open>NaN\<close> and a read of \<^verbatim>\<open>undefined\<close> used in arithmetic behave as they do
  in the program. Finite values are real numbers: rounding to 64-bit floating point and the
  sign of zero are not modelled.
\<close>

datatype number = Fin real | PosInf | NegInf | NaN

fun num_neg :: "number \<Rightarrow> number" where
  "num_neg (Fin a) = Fin (- a)"
| "num_neg PosInf = NegInf"
| "num_neg NegInf = PosInf"
| "num_neg NaN = NaN"

fun num_add :: "number \<Rightarrow> number \<Rightarrow> number" where
  "num_add (Fin a) (Fin b) = Fin (a + b)"
| "num_add NaN _ = NaN"
| "num_add _ NaN = NaN"
| "num_add PosInf NegInf = NaN"
| "num_add NegInf PosInf = NaN"
| "num_add PosInf _ = PosInf"
| "num_add _ PosInf = PosInf"
| "num_add NegInf _ = NegInf"
| "num_add _ NegInf = NegInf"

definition num_sub :: "number \<Rightarrow> number \<Rightarrow> number" where
  "num_sub a b = num_add a (num_neg b)"

text \<open>The infinity with the sign of a non-zero real, and with the opposite sign.\<close>

definition inf_sign :: "real \<Rightarrow> number" where
  "inf_sign a = (if 0 < a then PosInf else NegInf)"

fun num_mul :: "number \<Rightarrow> number \<Rightarrow> number" where
  "num_mul (Fin a) (Fin b) = Fin (a * b)"
| "num_mul NaN _ = NaN"
| "num_mul _ NaN = NaN"
| "num_mul (Fin a) PosInf = (if a = 0 then NaN else inf_sign a)"
| "num_mul (Fin a) NegInf = (if a = 0 then NaN else inf_sign (- a))"
| "num_mul PosInf (Fin b) = (if b = 0 then NaN else inf_sign b)"
| "num_mul NegInf (Fin b) = (if b = 0 then NaN else inf_sign (- b))"
| "num_mul PosInf PosInf = PosInf"
| "num_mul PosInf NegInf = NegInf"
| "num_mul NegInf PosInf = NegInf"
| "num_mul NegInf NegInf = PosInf"

fun num_div :: "number \<Rightarrow> number \<Rightarrow> number" where
  "num_div (Fin a) (Fin b) =
     (if b = 0 then (if a = 0 then NaN else inf_sign a) else Fin (a / b))"
| "num_div NaN _ = NaN"
| "num_div _ NaN = NaN"
| "num_div (Fin a) _ = Fin 0"
| "num_div PosInf (Fin b) = (if 0 \<le> b then PosInf else NegInf)"
| "num_div NegInf (Fin b) = (if 0 \<le> b then NegInf else PosInf)"
| "num_div _ _ = NaN"

fun num_lt :: "number \<Rightarrow> number \<Rightarrow> bool" where
  "num_lt (Fin a) (Fin b) = (a < b)"
| "num_lt NaN _ = False"
| "num_lt _ NaN = False"
| "num_lt NegInf NegInf = False"
| "num_lt NegInf _ = True"
| "num_lt _ NegInf = False"
| "num_lt PosInf _ = False"
| "num_lt _ PosInf = True"

definition num_gt :: "number \<Rightarrow> number \<Rightarrow> bool" where
  "num_gt a b = num_lt b a"

definition num_le :: "number \<Rightarrow> number \<Rightarrow> bool" where
  "num_le a b = (a \<noteq> NaN \<and> b \<noteq> NaN \<and> (num_lt a b \<or> a = b))"

definition num_ge :: "number \<Rightarrow> number \<Rightarrow> bool" where
  "num_ge a b = num_le b a"

fun num_abs :: "number \<Rightarrow> number" where
  "num_abs (Fin a) = Fin \<bar>a\<bar>"
| "num_abs NaN = NaN"
| "num_abs _ = PosInf"

text \<open>\<^verbatim>\<open>Math.min(a, b)\<close>: \<^verbatim>\<open>NaN\<close> when either argument is.\<close>

definition num_min :: "number \<Rightarrow> number \<Rightarrow> number" where
  "num_min a b = (if a = NaN \<or> b = NaN then NaN else if num_lt b a then b else a)"

fun num_sqrt :: "number \<Rightarrow> number" where
  "num_sqrt (Fin a) = (if a < 0 then NaN else Fin (sqrt a))"
| "num_sqrt PosInf = PosInf"
| "num_sqrt _ = NaN"

fun num_floor :: "number \<Rightarrow> number" where
  "num_floor (Fin a) = Fin (of_int \<lfloor>a\<rfloor>)"
| "num_floor x = x"

text \<open>
  Reading an array out of range gives \<^verbatim>\<open>undefined\<close>, which arithmetic and comparisons turn
  into \<^verbatim>\<open>NaN\<close>. The index is an integer, since the program computes
  \<^verbatim>\<open>length - 1\<close> and \<^verbatim>\<open>length - 2\<close> on arrays that may be empty.
\<close>

definition num_at :: "number list \<Rightarrow> int \<Rightarrow> number" where
  "num_at xs i = (if 0 \<le> i \<and> i < int (length xs) then xs ! nat i else NaN)"

section \<open>Shared schema\<close>

text \<open>
  The types of \<^verbatim>\<open>shared/schema.ts\<close>. Columns declared \<^verbatim>\<open>numeric\<close> hold decimal strings that
  the server writes with \<^verbatim>\<open>toString\<close> and reads back with \<^verbatim>\<open>parseFloat\<close>; the model stores
  the number such a string denotes. Timestamps are milliseconds. A row of a table is the pair
  of its \<^verbatim>\<open>id\<close> and a record of its other columns, so the records below have no \<^verbatim>\<open>id\<close> field.
\<close>

datatype action = Buy | Sell | Hold

datatype log_level = INFO | TRADE | SIGNAL | ERROR | WARNING

datatype error = TypeError string | Thrown string

fun message :: "error \<Rightarrow> string" where
  "message (TypeError m) = m"
| "message (Thrown m) = m"

record MarketData =
  md_symbol :: string
  md_price :: number
  md_timestamp :: int
  md_change :: number
  md_changePercent :: number

record StrategySignal =
  sig_symbol :: string
  sig_action :: action
  sig_confidence :: number
  sig_timestamp :: int

record OrderRequest =
  or_symbol :: string
  or_qty :: number
  or_side :: action
  or_type :: string
  or_time_in_force :: string

record OrderResponse =
  ord_id :: string
  ord_symbol :: string
  ord_side :: action
  ord_type :: string
  ord_qty :: number
  ord_status :: string

record AccountInfo =
  acc_portfolio_value :: number
  acc_buying_power :: number

record ApiKey =
  ak_userId :: int
  alpacaApiKey :: string
  alpacaSecretKey :: string
  environment :: string

record BotSettings =
  bs_userId :: int
  isActive :: bool
  strategy :: string
  riskLevel :: int
  tradingFrequency :: string
  bs_updatedAt :: int

record Position =
  pos_userId :: int
  pos_symbol :: string
  qty :: number
  entryPrice :: number
  currentPrice :: number
  marketValue :: number
  unrealizedPl :: number
  unrealizedPlPerc :: number
  pos_updatedAt :: int

record Trade =
  tr_userId :: int
  tr_symbol :: string
  tr_side :: action
  tr_qty :: number
  tr_price :: number
  tr_orderType :: string
  tr_status :: string
  tr_timestamp :: int

record PerformanceMetrics =
  pm_userId :: int
  portfolioValue :: number
  portfolioChange :: number
  portfolioChangePerc :: number
  buyingPower :: number
  pm_updatedAt :: int

record SystemLog =
  log_userId :: int
  level :: log_level
  log_message :: string
  log_timestamp :: int

section \<open>Rule-based strategies\<close>

text \<open>
  The module \<^verbatim>\<open>server/strategies.ts\<close>. A strategy object is a record of its methods. Every
  \<^verbatim>\<open>analyze\<close> takes the value of \<^verbatim>\<open>Date.now()\<close> as its first argument; the optional
  parameter \<^verbatim>\<open>historicalData\<close> is an option. Periods are non-negative integers. A property
  read on \<^verbatim>\<open>undefined\<close> throws a \<^verbatim>\<open>TypeError\<close>, which is the \<open>Inl\<close> result.
\<close>

record TradingStrategy =
  analyze :: "int \<Rightarrow> string \<Rightarrow> MarketData list \<Rightarrow> MarketData list option \<Rightarrow> error + StrategySignal"
  getName :: string

definition hold_signal :: "string \<Rightarrow> int \<Rightarrow> StrategySignal" where
  "hold_signal symbol now =
     \<lparr>sig_symbol = symbol, sig_action = Hold, sig_confidence = Fin 0, sig_timestamp = now\<rparr>"

definition price_undefined :: error where
  "price_undefined = TypeError ''Cannot read properties of undefined (reading 'price')''"

text \<open>\<^verbatim>\<open>data[data.length - 1].price\<close>\<close>

definition last_price :: "MarketData list \<Rightarrow> error + number" where
  "last_price data = (if data = [] then Inl price_undefined else Inr (md_price (last data)))"

definition MeanReversion_analyze ::
  "nat \<Rightarrow> number \<Rightarrow> bool \<Rightarrow> int \<Rightarrow> string \<Rightarrow> MarketData list \<Rightarrow> MarketData list option
     \<Rightarrow> error + StrategySignal" where
  "MeanReversion_analyze lookbackPeriod standardDeviations trendFilter now symbol data historicalData =
     (case historicalData of
        None \<Rightarrow> Inr (hold_signal symbol now)
      | Some hist \<Rightarrow>
          if length hist < lookbackPeriod then Inr (hold_signal symbol now)
          else
            let prices = map md_price hist;
                n = Fin (real (length prices));
                mean = num_div (foldl num_add (Fin 0) prices) n;
                variance =
                  num_div (foldl (\<lambda>sum price. num_add sum (num_mul (num_sub price mean) (num_sub price mean)))
                             (Fin 0) prices) n;
                stdDev = num_sqrt variance
            in case last_price data of
                 Inl e \<Rightarrow> Inl e
               | Inr curPrice \<Rightarrow>
                   let upperBound = num_add mean (num_mul standardDeviations stdDev);
                       lowerBound = num_sub mean (num_mul standardDeviations stdDev);
                       (action, confidence) =
                         (if num_lt curPrice lowerBound then
                            (Buy, num_mul (num_min (num_abs (num_div (num_sub curPrice lowerBound)
                                                                    (num_sub mean lowerBound))) (Fin 1)) (Fin 100))
                          else if num_gt curPrice upperBound then
                            (Sell, num_mul (num_min (num_abs (num_div (num_sub curPrice upperBound)
                                                                     (num_sub upperBound mean))) (Fin 1)) (Fin 100))
                          else (Hold, Fin 0));
                       recentPrices = drop (length prices - 3) prices;
                       isUptrend = num_gt (num_at recentPrices 2) (num_at recentPrices 0);
                       (action', confidence') =
                         (if trendFilter \<and> action \<noteq> Hold
                             \<and> ((action = Buy \<and> \<not> isUptrend) \<or> (action = Sell \<and> isUptrend))
                          then (Hold, Fin 0) else (action, confidence))
                   in Inr \<lparr>sig_symbol = symbol, sig_action = action', sig_confidence = confidence',
                            sig_timestamp = now\<rparr>)"

definition MeanReversionStrategy :: "nat \<Rightarrow> number \<Rightarrow> bool \<Rightarrow> TradingStrategy" where
  "MeanReversionStrategy lookbackPeriod standardDeviations trendFilter =
     \<lparr>analyze = MeanReversion_analyze lookbackPeriod standardDeviations trendFilter,
      getName = ''Mean Reversion''\<rparr>"

definition Momentum_analyze ::
  "nat \<Rightarrow> number \<Rightarrow> int \<Rightarrow> string \<Rightarrow> MarketData list \<Rightarrow> MarketData list option
     \<Rightarrow> error + StrategySignal" where
  "Momentum_analyze lookbackPeriod threshold now symbol data historicalData =
     (case historicalData of
        None \<Rightarrow> Inr (hold_signal symbol now)
      | Some hist \<Rightarrow>
          if length hist < lookbackPeriod then Inr (hold_signal symbol now)
          else
            case last_price data of
              Inl e \<Rightarrow> Inl e
            | Inr curPrice \<Rightarrow>
                if length hist \<le> length hist - lookbackPeriod then Inl price_undefined
                else
                  let pastPrice = md_price (hist ! (length hist - lookbackPeriod));
                      momentumChange = num_div (num_sub curPrice pastPrice) pastPrice;
                      (action, confidence) =
                        (if num_gt momentumChange threshold then
                           (Buy, num_mul (num_min (num_div momentumChange (num_mul threshold (Fin 2))) (Fin 1))
                                         (Fin 100))
                         else if num_lt momentumChange (num_neg threshold) then
                           (Sell, num_mul (num_min (num_div (num_abs momentumChange) (num_mul threshold (Fin 2)))
                                                   (Fin 1)) (Fin 100))
                         else (Hold, Fin 0))
                  in Inr \<lparr>sig_symbol = symbol, sig_action = action, sig_confidence = confidence,
                           sig_timestamp = now\<rparr>)"

definition MomentumStrategy :: "nat \<Rightarrow> number \<Rightarrow> TradingStrategy" where
  "MomentumStrategy lookbackPeriod threshold =
     \<lparr>analyze = Momentum_analyze lookbackPeriod threshold, getName = ''Momentum''\<rparr>"

text \<open>The loop of \<^verbatim>\<open>calculateEMA\<close> over the prices from index \<^verbatim>\<open>period\<close> on.\<close>

fun ema_rest :: "number \<Rightarrow> number \<Rightarrow> number list \<Rightarrow> number list" where
  "ema_rest multiplier prev [] = []"
| "ema_rest multiplier prev (p # ps) =
     (let e = num_add (num_mul (num_sub p prev) multiplier) prev in e # ema_rest multiplier e ps)"

definition calculateEMA :: "number list \<Rightarrow> nat \<Rightarrow> number list" where
  "calculateEMA prices period =
     (let multiplier = num_div (Fin 2) (Fin (real period + 1));
          sum = foldl (\<lambda>acc i. num_add acc (num_at prices (int i))) (Fin 0) [0..<period];
          first = num_div sum (Fin (real period))
      in first # ema_rest multiplier first (drop period prices))"

definition PPO_analyze ::
  "nat \<Rightarrow> nat \<Rightarrow> nat \<Rightarrow> number \<Rightarrow> number \<Rightarrow> int \<Rightarrow> string \<Rightarrow> MarketData list
     \<Rightarrow> MarketData list option \<Rightarrow> error + StrategySignal" where
  "PPO_analyze fastPeriod slowPeriod signalPeriod buyThreshold sellThreshold now symbol data historicalData =
     (let requiredDataPoints = max (max fastPeriod slowPeriod) signalPeriod * 2 in
      case historicalData of
        None \<Rightarrow> Inr (hold_signal symbol now)
      | Some hist \<Rightarrow>
          if length hist < requiredDataPoints then Inr (hold_signal symbol now)
          else
            let prices = map md_price hist @ map md_price data;
                fastEMA = calculateEMA prices fastPeriod;
                slowEMA = calculateEMA prices slowPeriod;
                ppoLine = map (\<lambda>(f, s). num_mul (num_div (num_sub f s) s) (Fin 100)) (zip fastEMA slowEMA);
                signalLine = calculateEMA ppoLine signalPeriod;
                histogram = map (\<lambda>(p, s). num_sub p s) (zip ppoLine signalLine);
                lastHistogram = num_at histogram (int (length histogram) - 1);
                prevHistogram = num_at histogram (int (length histogram) - 2);
                (action, confidence) =
                  (if num_gt lastHistogram buyThreshold \<and> num_le prevHistogram buyThreshold then
                     (Buy, num_mul (num_min (num_div lastHistogram (num_mul buyThreshold (Fin 2))) (Fin 1))
                                   (Fin 100))
                   else if num_lt lastHistogram sellThreshold \<and> num_ge prevHistogram sellThreshold then
                     (Sell, num_mul (num_min (num_div (num_abs lastHistogram)
                                                      (num_mul (num_abs sellThreshold) (Fin 2))) (Fin 1))
                                    (Fin 100))
                   else (Hold, Fin 0))
            in Inr \<lparr>sig_symbol = symbol, sig_action = action, sig_confidence = confidence,
                     sig_timestamp = now\<rparr>)"

definition PPOStrategy :: "nat \<Rightarrow> nat \<Rightarrow> nat \<Rightarrow> number \<Rightarrow> number \<Rightarrow> TradingStrategy" where
  "PPOStrategy fastPeriod slowPeriod signalPeriod buyThreshold sellThreshold =
     \<lparr>analyze = PPO_analyze fastPeriod slowPeriod signalPeriod buyThreshold sellThreshold,
      getName = ''PPO (Percentage Price Oscillator)''\<rparr>"

text \<open>
  The placeholder class \<^verbatim>\<open>ReinforcementLearningStrategy\<close> of the same module. It looks at
  \<^verbatim>\<open>data\<close> only and needs two points of it.
\<close>

definition ReinforcementLearning_analyze ::
  "int \<Rightarrow> string \<Rightarrow> MarketData list \<Rightarrow> MarketData list option \<Rightarrow> error + StrategySignal" where
  "ReinforcementLearning_analyze now symbol data historicalData =
     (if length data < 2 then Inr (hold_signal symbol now)
      else
        let lastPrice = md_price (data ! (length data - 1));
            previousPrice = md_price (data ! (length data - 2));
            priceChange = num_div (num_sub lastPrice previousPrice) previousPrice;
            action = (if num_gt priceChange (Fin (1 / 100)) then Buy
                      else if num_lt priceChange (Fin (- (1 / 100))) then Sell else Hold)
        in Inr \<lparr>sig_symbol = symbol, sig_action = action, sig_confidence = Fin 50, sig_timestamp = now\<rparr>)"

definition ReinforcementLearningStrategy :: TradingStrategy where
  "ReinforcementLearningStrategy =
     \<lparr>analyze = ReinforcementLearning_analyze, getName = ''Reinforcement Learning''\<rparr>"

text \<open>The factory. The defaults are those of the constructors.\<close>

definition createStrategy :: "string \<Rightarrow> TradingStrategy" where
  "createStrategy type =
     (if type = ''mean_reversion'' then MeanReversionStrategy 14 (Fin 2) True
      else if type = ''momentum'' then MomentumStrategy 10 (Fin (3 / 100))
      else if type = ''ppo'' then PPOStrategy 12 26 9 (Fin (2 / 10)) (Fin (- (2 / 10)))
      else if type = ''reinforcement'' then ReinforcementLearningStrategy
      else MeanReversionStrategy 14 (Fin 2) True)"

section \<open>The learned-model strategy\<close>

text \<open>
  The class \<^verbatim>\<open>ReinforcementLearningTradingStrategy\<close>. The network behind \<^verbatim>\<open>agent.predict\<close> and
  \<^verbatim>\<open>DataProcessor.calculateIndicators\<close> are tensor code and are parameters of the model; each
  may throw. The fields \<^verbatim>\<open>agent\<close>, \<^verbatim>\<open>env\<close> and \<^verbatim>\<open>alpacaClient\<close> are only tested for
  \<^verbatim>\<open>null\<close>, so they are booleans. The object \<^verbatim>\<open>marketData\<close> (a \<^verbatim>\<open>Record\<close> keyed by symbol)
  is an association list.
\<close>

record rl_state =
  rl_agent :: bool
  rl_env :: bool
  rl_alpacaClient :: bool
  symbols :: "string list"
  modelLoaded :: bool
  historicalDataLength :: nat
  technicalIndicators :: "(string \<times> number list list) list"
  lastSignals :: "(string, StrategySignal) alist"
  rl_marketData :: "(string \<times> MarketData list) list"
  predictionConfidenceThreshold :: number

text \<open>
  The constructor, \<^verbatim>\<open>initializeAgent\<close> and \<^verbatim>\<open>loadModel\<close>. Whether the model file exists
  and loads is an argument of \<^verbatim>\<open>loadModel\<close>; its own failures end in \<^verbatim>\<open>false\<close> and throw
  nothing. \<^verbatim>\<open>getReinforcementLearningStrategy\<close> makes the instance on its first call and
  starts \<^verbatim>\<open>loadModel\<close> on it.
\<close>

definition newReinforcementLearningTradingStrategy :: "string list \<Rightarrow> nat \<Rightarrow> rl_state" where
  "newReinforcementLearningTradingStrategy syms dataLength =
     \<lparr>rl_agent = False, rl_env = True, rl_alpacaClient = False, symbols = syms, modelLoaded = False,
      historicalDataLength = dataLength, technicalIndicators = map (\<lambda>symbol. (symbol, [])) syms,
      lastSignals = DAList.empty, rl_marketData = map (\<lambda>symbol. (symbol, [])) syms,
      predictionConfidenceThreshold = Fin (3 / 10)\<rparr>"

definition initializeAgent :: "rl_state \<Rightarrow> rl_state" where
  "initializeAgent rl = (if \<not> rl_env rl then rl else rl\<lparr>rl_agent := True\<rparr>)"

definition loadModel :: "bool \<Rightarrow> rl_state \<Rightarrow> rl_state" where
  "loadModel fileLoads rl =
     (let rl1 = (if \<not> rl_agent rl then initializeAgent rl else rl)
      in if fileLoads then rl1\<lparr>modelLoaded := True\<rparr> else rl1)"

definition getReinforcementLearningStrategy :: "bool \<Rightarrow> rl_state" where
  "getReinforcementLearningStrategy fileLoads =
     loadModel fileLoads
       (newReinforcementLearningTradingStrategy [''BTCUSD'', ''ETHUSD'', ''SOLUSD'', ''AVAXUSD''] 100)"

definition undefined_read :: "string \<Rightarrow> error" where
  "undefined_read prop = TypeError (''Cannot read properties of undefined (reading '' @ prop @ '')'')"

text \<open>
  \<^verbatim>\<open>updateMarketData\<close> mutates the object before it computes the indicators, so the state
  comes back also when \<^verbatim>\<open>calculateIndicators\<close> throws. \<^verbatim>\<open>slice(-n)\<close> keeps the last
  \<^verbatim>\<open>n\<close> elements, and the whole array when \<^verbatim>\<open>n\<close> is 0.
\<close>

definition updateMarketData ::
  "(MarketData list \<Rightarrow> string \<Rightarrow> error + number list list) \<Rightarrow> string \<Rightarrow> MarketData \<Rightarrow> rl_state
     \<Rightarrow> error option \<times> rl_state" where
  "updateMarketData calculateIndicators symbol data rl =
     (if symbol \<notin> set (symbols rl) then (None, rl)
      else
        case map_of (rl_marketData rl) symbol of
          None \<Rightarrow> (Some (undefined_read ''push''), rl)
        | Some arr \<Rightarrow>
            let pushed = arr @ [data];
                limited =
                  (if length pushed > historicalDataLength rl \<and> historicalDataLength rl \<noteq> 0
                   then drop (length pushed - historicalDataLength rl) pushed else pushed);
                rl1 = rl\<lparr>rl_marketData := AList.update symbol limited (rl_marketData rl)\<rparr>
            in if length limited \<ge> 30 then
                 (case calculateIndicators limited symbol of
                    Inl e \<Rightarrow> (Some e, rl1)
                  | Inr ind \<Rightarrow>
                      (None, rl1\<lparr>technicalIndicators := AList.update symbol ind (technicalIndicators rl1)\<rparr>))
               else (None, rl1))"

fun createState_symbols :: "rl_state \<Rightarrow> string list \<Rightarrow> error + number list" where
  "createState_symbols rl [] = Inr []"
| "createState_symbols rl (symbol # rest) =
     (case map_of (rl_marketData rl) symbol of
        None \<Rightarrow> Inl (undefined_read ''length'')
      | Some data \<Rightarrow>
          if data = [] then createState_symbols rl rest
          else
            case map_of (technicalIndicators rl) symbol of
              None \<Rightarrow> Inl (undefined_read ''length'')
            | Some indicators \<Rightarrow>
                (case createState_symbols rl rest of
                   Inl e \<Rightarrow> Inl e
                 | Inr others \<Rightarrow>
                     Inr (md_price (last data)
                          # (if indicators \<noteq> [] then last indicators else replicate 8 (Fin 0))
                          @ [Fin 0] @ others)))"

definition createState :: "rl_state \<Rightarrow> error + number list" where
  "createState rl =
     (case createState_symbols rl (symbols rl) of Inl e \<Rightarrow> Inl e | Inr stateData \<Rightarrow> Inr (stateData @ [Fin 1]))"

text \<open>
  \<^verbatim>\<open>actionToSignal\<close>. The action may be \<^verbatim>\<open>undefined\<close> (the symbol is not one of the
  strategy's): every comparison with it is false, which \<open>NaN\<close> models.
\<close>

definition actionToSignal :: "rl_state \<Rightarrow> int \<Rightarrow> string \<Rightarrow> number \<Rightarrow> StrategySignal" where
  "actionToSignal rl now symbol act =
     (let (signalAction, confidence) =
            (if num_gt act (Fin 0) then (Buy, act)
             else if num_lt act (Fin 0) then (Sell, num_abs act)
             else (Hold, Fin (1 / 2)));
          signalAction' =
            (if num_lt confidence (predictionConfidenceThreshold rl) then Hold else signalAction)
      in \<lparr>sig_symbol = symbol, sig_action = signalAction', sig_confidence = confidence,
          sig_timestamp = now\<rparr>)"

fun indexOf :: "'a list \<Rightarrow> 'a \<Rightarrow> int" where
  "indexOf [] x = - 1"
| "indexOf (y # ys) x = (if y = x then 0 else let i = indexOf ys x in if i < 0 then - 1 else i + 1)"

text \<open>
  \<^verbatim>\<open>generateSignal\<close>. Everything after the first test runs inside \<^verbatim>\<open>try\<close>, and the handler
  returns the same hold signal, so the method never throws. A symbol of the strategy without
  an entry in \<^verbatim>\<open>marketData\<close> makes the loop throw, which ends in the same signal as a short
  entry does.
\<close>

definition generateSignal ::
  "(MarketData list \<Rightarrow> string \<Rightarrow> error + number list list) \<Rightarrow> (number list \<Rightarrow> error + number list)
     \<Rightarrow> int \<Rightarrow> string \<Rightarrow> MarketData list \<Rightarrow> MarketData list option \<Rightarrow> rl_state
     \<Rightarrow> StrategySignal \<times> rl_state" where
  "generateSignal calculateIndicators predict now symbol data historicalData rl =
     (if \<not> modelLoaded rl \<or> \<not> rl_agent rl \<or> \<not> rl_env rl \<or> length data < 30
      then (hold_signal symbol now, rl)
      else
        case updateMarketData calculateIndicators symbol (last data) rl of
          (Some e, rl1) \<Rightarrow> (hold_signal symbol now, rl1)
        | (None, rl1) \<Rightarrow>
            if list_ex (\<lambda>sym. case map_of (rl_marketData rl1) sym of
                                 None \<Rightarrow> True | Some arr \<Rightarrow> length arr < 30) (symbols rl1)
            then (hold_signal symbol now, rl1)
            else
              case createState rl1 of
                Inl e \<Rightarrow> (hold_signal symbol now, rl1)
              | Inr state \<Rightarrow>
                  (case predict state of
                     Inl e \<Rightarrow> (hold_signal symbol now, rl1)
                   | Inr actions \<Rightarrow>
                       let symbolIndex = indexOf (symbols rl1) symbol;
                           act = num_at actions symbolIndex;
                           signal = actionToSignal rl1 now symbol act
                       in (signal, rl1\<lparr>lastSignals := DAList.update symbol signal (lastSignals rl1)\<rparr>)))"

text \<open>\<^verbatim>\<open>signalToOrder\<close>: \<open>Inr None\<close> is the result \<^verbatim>\<open>null\<close>.\<close>

definition signalToOrder :: "rl_state \<Rightarrow> StrategySignal \<Rightarrow> number \<Rightarrow> error + OrderRequest option" where
  "signalToOrder rl signal accountValue =
     (if sig_action signal = Hold \<or> \<not> rl_alpacaClient rl then Inr None
      else
        let positionSize = num_mul (num_mul accountValue (Fin (1 / 10))) (sig_confidence signal) in
        case map_of (rl_marketData rl) (sig_symbol signal) of
          None \<Rightarrow> Inl (undefined_read ''length'')
        | Some marketData \<Rightarrow>
            let latestPrice = (if marketData \<noteq> [] then md_price (last marketData) else Fin 0) in
            if num_le latestPrice (Fin 0) then Inr None
            else
              let quantity = num_div positionSize latestPrice in
              if num_lt quantity (Fin (1 / 1000)) then Inr None
              else Inr (Some \<lparr>or_symbol = sig_symbol signal,
                               or_qty = num_div (num_floor (num_mul quantity (Fin 1000))) (Fin 1000),
                               or_side = sig_action signal, or_type = ''market'',
                               or_time_in_force = ''gtc''\<rparr>))"

section \<open>Process state and collaborators\<close>

text \<open>
  A JavaScript \<^verbatim>\<open>Map\<close> is an association list with distinct keys, in insertion order:
  \<^verbatim>\<open>get\<close> is \<^const>\<open>DAList.lookup\<close>, \<^verbatim>\<open>set\<close> is \<^const>\<open>DAList.update\<close> (in place for a
  key that is present, at the end otherwise), \<^verbatim>\<open>delete\<close> is \<^const>\<open>DAList.delete\<close>.
\<close>

definition entries :: "('k, 'v) alist \<Rightarrow> ('k \<times> 'v) list" where
  "entries m = DAList.impl_of m"

text \<open>The messages handed to \<^verbatim>\<open>broadcastToUser\<close>, by their \<^verbatim>\<open>type\<close> tag.\<close>

datatype ws_message =
    MarketDataMsg MarketData
  | PositionUpdate "(nat \<times> Position) option"
  | MetricsUpdate "nat \<times> PerformanceMetrics"
  | StrategySignalMsg StrategySignal
  | OrderUpdate OrderResponse
  | BotStatus bool "string option"

datatype broker_call = GetAccount | SubmitOrder OrderRequest

text \<open>A timer made by \<^verbatim>\<open>setInterval\<close>: the user its callback works for, and its period in ms.\<close>

record interval_timer =
  tm_userId :: int
  tm_period :: nat

text \<open>
  The state of the server process: the tables of \<^verbatim>\<open>MemStorage\<close> with the id counters the
  pipeline advances, the three global maps of \<^verbatim>\<open>routes.ts\<close>, the singleton of the learned-model
  strategy, the timers of the runtime that are live, and two logs of what the process did to
  the outside: the calls of \<^verbatim>\<open>broadcastToUser\<close> and the calls to the broker, both in order.
  \<^verbatim>\<open>broadcastToUser\<close> sends the message to every open socket of the user; the sockets are
  not part of the state.
\<close>

record world =
  apiKeys :: "(nat, ApiKey) alist"
  botSettings :: "(nat, BotSettings) alist"
  positions :: "(nat, Position) alist"
  trades :: "(nat, Trade) alist"
  performanceMetrics :: "(nat, PerformanceMetrics) alist"
  systemLogs :: "(nat, SystemLog) alist"
  nextId_trades :: nat
  nextId_systemLogs :: nat
  marketDataCache :: "(string, MarketData) alist"
  activeBots :: "(int, nat) alist"
  timers :: "(nat, interval_timer) alist"
  nextTimer :: nat
  rlStrategy :: rl_state
  broadcasts :: "(int \<times> ws_message) list"
  brokerCalls :: "broker_call list"

text \<open>
  What the pipeline gets from outside during one run of a handler: the clock (one reading
  for the whole run), the formatting of numbers, the broker's answers (\<open>Inl\<close> when the call throws), the tensor code of the
  learned-model strategy, and the strategy factory that \<^verbatim>\<open>routes.ts\<close> imports. The factory of
  the repository is \<^const>\<open>createStrategy\<close>.
\<close>

record collaborators =
  now :: int
  toFixed1 :: "number \<Rightarrow> string"
  numToString :: "number \<Rightarrow> string"
  getAccount :: "error + AccountInfo"
  submitOrder :: "OrderRequest \<Rightarrow> error + OrderResponse"
  predict :: "number list \<Rightarrow> error + number list"
  calculateIndicators :: "MarketData list \<Rightarrow> string \<Rightarrow> error + number list list"
  strategyFactory :: "string \<Rightarrow> TradingStrategy"
  modelFileLoads :: bool
  rlInitError :: "error option"

subsection \<open>Storage\<close>

definition getApiKeyByUserId :: "world \<Rightarrow> int \<Rightarrow> (nat \<times> ApiKey) option" where
  "getApiKeyByUserId s userId = find (\<lambda>(ident, apiKey). ak_userId apiKey = userId) (entries (apiKeys s))"

definition getBotSettingsByUserId :: "world \<Rightarrow> int \<Rightarrow> (nat \<times> BotSettings) option" where
  "getBotSettingsByUserId s userId =
     find (\<lambda>(ident, settings). bs_userId settings = userId) (entries (botSettings s))"

text \<open>
  The \<^verbatim>\<open>update\<close> methods take the fields to overwrite; the model takes the function that
  overwrites them. Each returns the updated row, or \<^verbatim>\<open>undefined\<close> for an unknown id.
\<close>

definition updateBotSettings ::
  "int \<Rightarrow> nat \<Rightarrow> (BotSettings \<Rightarrow> BotSettings) \<Rightarrow> world \<Rightarrow> (nat \<times> BotSettings) option \<times> world" where
  "updateBotSettings time ident change s =
     (case DAList.lookup (botSettings s) ident of
        None \<Rightarrow> (None, s)
      | Some existing \<Rightarrow>
          let updated = (change existing)\<lparr>bs_updatedAt := time\<rparr>
          in (Some (ident, updated), s\<lparr>botSettings := DAList.update ident updated (botSettings s)\<rparr>))"

definition getPositionsByUserId :: "world \<Rightarrow> int \<Rightarrow> (nat \<times> Position) list" where
  "getPositionsByUserId s userId =
     filter (\<lambda>(ident, position). pos_userId position = userId) (entries (positions s))"

definition updatePosition ::
  "int \<Rightarrow> nat \<Rightarrow> (Position \<Rightarrow> Position) \<Rightarrow> world \<Rightarrow> (nat \<times> Position) option \<times> world" where
  "updatePosition time ident change s =
     (case DAList.lookup (positions s) ident of
        None \<Rightarrow> (None, s)
      | Some existing \<Rightarrow>
          let updated = (change existing)\<lparr>pos_updatedAt := time\<rparr>
          in (Some (ident, updated), s\<lparr>positions := DAList.update ident updated (positions s)\<rparr>))"

definition getPerformanceMetricsByUserId :: "world \<Rightarrow> int \<Rightarrow> (nat \<times> PerformanceMetrics) option" where
  "getPerformanceMetricsByUserId s userId =
     find (\<lambda>(ident, metrics). pm_userId metrics = userId) (entries (performanceMetrics s))"

definition updatePerformanceMetrics ::
  "int \<Rightarrow> nat \<Rightarrow> (PerformanceMetrics \<Rightarrow> PerformanceMetrics) \<Rightarrow> world
     \<Rightarrow> (nat \<times> PerformanceMetrics) option \<times> world" where
  "updatePerformanceMetrics time ident change s =
     (case DAList.lookup (performanceMetrics s) ident of
        None \<Rightarrow> (None, s)
      | Some existing \<Rightarrow>
          let updated = (change existing)\<lparr>pm_updatedAt := time\<rparr>
          in (Some (ident, updated),
              s\<lparr>performanceMetrics := DAList.update ident updated (performanceMetrics s)\<rparr>))"

definition createSystemLog :: "int \<Rightarrow> int \<Rightarrow> log_level \<Rightarrow> string \<Rightarrow> world \<Rightarrow> world" where
  "createSystemLog time userId lvl msg s =
     (let ident = nextId_systemLogs s;
          newLog = \<lparr>log_userId = userId, level = lvl, log_message = msg,
                    log_timestamp = time\<rparr>
      in s\<lparr>nextId_systemLogs := ident + 1, systemLogs := DAList.update ident newLog (systemLogs s)\<rparr>)"

definition createTrade ::
  "int \<Rightarrow> int \<Rightarrow> string \<Rightarrow> action \<Rightarrow> number \<Rightarrow> number \<Rightarrow> string \<Rightarrow> string \<Rightarrow> world \<Rightarrow> world" where
  "createTrade time userId symbol side quantity price orderType status s =
     (let ident = nextId_trades s;
          newTrade = \<lparr>tr_userId = userId, tr_symbol = symbol, tr_side = side,
                      tr_qty = quantity, tr_price = price, tr_orderType = orderType,
                      tr_status = status, tr_timestamp = time\<rparr>
      in s\<lparr>nextId_trades := ident + 1, trades := DAList.update ident newTrade (trades s)\<rparr>)"

subsection \<open>Globals of the routes module\<close>

definition broadcastToUser :: "int \<Rightarrow> ws_message \<Rightarrow> world \<Rightarrow> world" where
  "broadcastToUser userId msg s = s\<lparr>broadcasts := broadcasts s @ [(userId, msg)]\<rparr>"

definition callBroker :: "broker_call \<Rightarrow> world \<Rightarrow> world" where
  "callBroker c s = s\<lparr>brokerCalls := brokerCalls s @ [c]\<rparr>"

text \<open>
  \<^verbatim>\<open>apiKey?.alpacaApiKey === 'TEST_KEY' || apiKey?.alpacaApiKey?.startsWith('TEST_')\<close>
\<close>

definition isTestMode :: "(nat \<times> ApiKey) option \<Rightarrow> bool" where
  "isTestMode apiKey =
     (case apiKey of
        None \<Rightarrow> False
      | Some (ident, k) \<Rightarrow> alpacaApiKey k = ''TEST_KEY'' \<or> take 5 (alpacaApiKey k) = ''TEST_'')"

definition testMsg :: "bool \<Rightarrow> string" where
  "testMsg test = (if test then '' (TEST MODE)'' else [])"

fun action_text :: "action \<Rightarrow> string" where
  "action_text Buy = ''buy''"
| "action_text Sell = ''sell''"
| "action_text Hold = ''hold''"

fun action_upper :: "action \<Rightarrow> string" where
  "action_upper Buy = ''BUY''"
| "action_upper Sell = ''SELL''"
| "action_upper Hold = ''HOLD''"

section \<open>The tick handler\<close>

text \<open>
  \<^verbatim>\<open>handleAlpacaWebsocketMessage\<close> of \<^verbatim>\<open>server/routes.ts\<close>, a handler that runs to its end
  before the next one starts. Its body is one \<^verbatim>\<open>try\<close> whose \<^verbatim>\<open>catch\<close> writes to the console
  only: a throw ends the run and leaves the state as it is at that point. The three parts
  below are the blocks of the body after the cache update and the tick broadcast, in the
  order of the source.
\<close>

text \<open>Lines 71 to 122: the position of the tick's symbol, when the user has one.\<close>

definition reconcilePosition :: "collaborators \<Rightarrow> int \<Rightarrow> bool \<Rightarrow> MarketData \<Rightarrow> world \<Rightarrow> world" where
  "reconcilePosition c userId test tick s =
     (let userPositions = getPositionsByUserId s userId in
      case find (\<lambda>(ident, p). pos_symbol p = md_symbol tick) userPositions of
        None \<Rightarrow> s
      | Some (positionId, position) \<Rightarrow>
          let (updatedPosition, s1) =
                updatePosition (now c) positionId
                  (\<lambda>p. p\<lparr>currentPrice := md_price tick,
                          marketValue := num_mul (qty position) (md_price tick),
                          unrealizedPl :=
                            num_mul (qty position) (num_sub (md_price tick) (entryPrice position)),
                          unrealizedPlPerc :=
                            num_mul (num_div (num_sub (md_price tick) (entryPrice position))
                                             (entryPrice position)) (Fin 100)\<rparr>) s;
              s2 = broadcastToUser userId (PositionUpdate updatedPosition) s1
          in if test then
               (case getPerformanceMetricsByUserId s2 userId of
                  None \<Rightarrow> s2
                | Some (metricsId, metrics) \<Rightarrow>
                    let totalPositionValue =
                          foldl (\<lambda>total (ident, pos). num_add total (marketValue pos)) (Fin 0) userPositions;
                        newPortfolioValue = num_add totalPositionValue (buyingPower metrics);
                        change = num_sub newPortfolioValue (Fin 25000);
                        changePerc = num_mul (num_div change (Fin 25000)) (Fin 100);
                        s3 = snd (updatePerformanceMetrics (now c) metricsId
                                    (\<lambda>m. m\<lparr>portfolioValue := newPortfolioValue,
                                            portfolioChange := change,
                                            portfolioChangePerc := changePerc\<rparr>) s2)
                    in case getPerformanceMetricsByUserId s3 userId of
                         None \<Rightarrow> s3
                       | Some updatedMetrics \<Rightarrow> broadcastToUser userId (MetricsUpdate updatedMetrics) s3)
             else s2)"

text \<open>
  Lines 131 to 137: the window handed to the strategy as its history, read off the cache of
  latest values.
\<close>

definition historicalWindow :: "(string, MarketData) alist \<Rightarrow> string \<Rightarrow> MarketData list" where
  "historicalWindow cache tickSymbol =
     map snd (filter (\<lambda>(symbol, data). symbol = tickSymbol) (entries cache))"

text \<open>
  Lines 139 to 179: the signal, its log line and its broadcast. The result is the state and
  the signal, or no signal when something threw.
\<close>

definition evaluateStrategy ::
  "collaborators \<Rightarrow> int \<Rightarrow> bool \<Rightarrow> BotSettings \<Rightarrow> MarketData \<Rightarrow> world \<Rightarrow> world \<times> StrategySignal option" where
  "evaluateStrategy c userId test settings tick s =
     (let historicalData = historicalWindow (marketDataCache s) (md_symbol tick) in
      if strategy settings = ''reinforcement'' then
        (case updateMarketData (calculateIndicators c) (md_symbol tick) tick (rlStrategy s) of
           (Some e, rl1) \<Rightarrow> (s\<lparr>rlStrategy := rl1\<rparr>, None)
         | (None, rl1) \<Rightarrow>
             let (signal, rl2) =
                   generateSignal (calculateIndicators c) (predict c) (now c) (md_symbol tick) [tick]
                     (Some historicalData) rl1;
                 s1 = createSystemLog (now c) userId SIGNAL
                        (''AI Reinforcement Learning '' @ action_text (sig_action signal)
                         @ '' signal for '' @ sig_symbol signal @ '' (confidence: ''
                         @ toFixed1 c (sig_confidence signal) @ ''%)'' @ testMsg test)
                        (s\<lparr>rlStrategy := rl2\<rparr>)
             in (broadcastToUser userId (StrategySignalMsg signal) s1, Some signal))
      else
        let strat = strategyFactory c (strategy settings) in
        case analyze strat (now c) (md_symbol tick) [tick] (Some historicalData) of
          Inl e \<Rightarrow> (s, None)
        | Inr signal \<Rightarrow>
            let s1 = createSystemLog (now c) userId SIGNAL
                       (getName strat @ '' '' @ action_text (sig_action signal)
                        @ '' signal detected for '' @ sig_symbol signal @ '' (confidence: ''
                        @ toFixed1 c (sig_confidence signal) @ ''%)'' @ testMsg test) s
            in (broadcastToUser userId (StrategySignalMsg signal) s1, Some signal))"

text \<open>Lines 198 to 226: the order request for a signal that passed the gate.\<close>

definition defaultOrder :: "StrategySignal \<Rightarrow> OrderRequest" where
  "defaultOrder signal =
     \<lparr>or_symbol = sig_symbol signal, or_qty = Fin 1, or_side = sig_action signal,
      or_type = ''market'', or_time_in_force = ''gtc''\<rparr>"

definition buildOrderRequest :: "BotSettings \<Rightarrow> StrategySignal \<Rightarrow> number \<Rightarrow> world \<Rightarrow> error + OrderRequest" where
  "buildOrderRequest settings signal accountValue s =
     (if strategy settings = ''reinforcement'' then
        (case signalToOrder (rlStrategy s) signal accountValue of
           Inl e \<Rightarrow> Inl e
         | Inr (Some rlOrder) \<Rightarrow> Inr rlOrder
         | Inr None \<Rightarrow> Inr (defaultOrder signal))
      else Inr (defaultOrder signal))"

text \<open>
  Lines 182 to 263: the gate and what is behind it. A throw of \<^verbatim>\<open>getAccount\<close> or of
  \<^verbatim>\<open>signalToOrder\<close> leaves through the outer \<^verbatim>\<open>catch\<close>; a throw of \<^verbatim>\<open>submitOrder\<close> is
  caught by the inner one.
\<close>

definition decideOrder :: "collaborators \<Rightarrow> int \<Rightarrow> BotSettings \<Rightarrow> StrategySignal \<Rightarrow> world \<Rightarrow> world" where
  "decideOrder c userId settings signal s =
     (if sig_action signal \<noteq> Hold \<and> num_gt (sig_confidence signal) (Fin 70) then
        (case getApiKeyByUserId s userId of
           None \<Rightarrow> s
         | Some (keyId, apiKey) \<Rightarrow>
             let s1 = callBroker GetAccount s in
             case getAccount c of
               Inl e \<Rightarrow> s1
             | Inr account \<Rightarrow>
                 (case buildOrderRequest settings signal (acc_portfolio_value account) s1 of
                    Inl e \<Rightarrow> s1
                  | Inr orderRequest \<Rightarrow>
                      let s2 = callBroker (SubmitOrder orderRequest) s1 in
                      case submitOrder c orderRequest of
                        Inr order \<Rightarrow>
                          let s3 = createSystemLog (now c) userId TRADE
                                     (action_upper (ord_side order) @ '' order executed: ''
                                      @ numToString c (ord_qty order) @ '' '' @ ord_symbol order
                                      @ '' @ market price'') s2;
                              s4 = createTrade (now c) userId (ord_symbol order) (ord_side order)
                                     (ord_qty order) (Fin 0) (ord_type order) (ord_status order) s3
                          in broadcastToUser userId (OrderUpdate order) s4
                      | Inl e \<Rightarrow>
                          createSystemLog (now c) userId ERROR
                            (''Order execution failed: '' @ message e) s2))
      else s)"

text \<open>
  The handler. Its argument is the tick that lines 49 to 57 take out of the message, if any.
\<close>

definition handleAlpacaWebsocketMessage :: "collaborators \<Rightarrow> int \<Rightarrow> MarketData option \<Rightarrow> world \<Rightarrow> world" where
  "handleAlpacaWebsocketMessage c userId marketData s =
     (let test = isTestMode (getApiKeyByUserId s userId) in
      case marketData of
        None \<Rightarrow> s
      | Some tick \<Rightarrow>
          let s1 = s\<lparr>marketDataCache := DAList.update (md_symbol tick) tick (marketDataCache s)\<rparr>;
              s2 = broadcastToUser userId (MarketDataMsg tick) s1;
              s3 = reconcilePosition c userId test tick s2
          in case getBotSettingsByUserId s3 userId of
               None \<Rightarrow> s3
             | Some (settingsId, settings) \<Rightarrow>
                 if isActive settings then
                   (case evaluateStrategy c userId test settings tick s3 of
                      (s4, None) \<Rightarrow> s4
                    | (s4, Some signal) \<Rightarrow> decideOrder c userId settings signal s4)
                 else s3)"

section \<open>The bot scheduler\<close>

text \<open>
  \<^verbatim>\<open>setInterval\<close> hands out a fresh handle and the timer is live until \<^verbatim>\<open>clearInterval\<close>
  gets that handle.
\<close>

definition setInterval :: "int \<Rightarrow> nat \<Rightarrow> world \<Rightarrow> nat \<times> world" where
  "setInterval userId period s =
     (let handle = nextTimer s
      in (handle, s\<lparr>timers := DAList.update handle \<lparr>tm_userId = userId, tm_period = period\<rparr> (timers s),
                     nextTimer := handle + 1\<rparr>))"

definition clearInterval :: "nat \<Rightarrow> world \<Rightarrow> world" where
  "clearInterval handle s = s\<lparr>timers := DAList.delete handle (timers s)\<rparr>"

definition stopTradingBot :: "int \<Rightarrow> world \<Rightarrow> world" where
  "stopTradingBot userId s =
     (case DAList.lookup (activeBots s) userId of
        None \<Rightarrow> s
      | Some intervalId \<Rightarrow>
          (clearInterval intervalId s)\<lparr>activeBots := DAList.delete userId (activeBots s)\<rparr>)"

text \<open>Lines 342 to 354: the period of the recurring update, in milliseconds.\<close>

definition updateInterval :: "string \<Rightarrow> nat" where
  "updateInterval frequency =
     (if frequency = ''low'' then 300000
      else if frequency = ''medium'' then 60000
      else if frequency = ''high'' then 10000
      else 60000)"

text \<open>
  Lines 286 to 325: the set-up of the learned-model strategy when it is the one selected:
  \<^verbatim>\<open>setAlpacaClient\<close>, then \<^verbatim>\<open>loadModel\<close>, then an INFO log line. A throw of the block is
  the collaborator \<^const>\<open>rlInitError\<close> and ends in an ERROR log line.
\<close>

definition initReinforcement :: "collaborators \<Rightarrow> int \<Rightarrow> bool \<Rightarrow> world \<Rightarrow> world" where
  "initReinforcement c userId test s =
     (case rlInitError c of
        Some e \<Rightarrow>
          createSystemLog (now c) userId ERROR (''Error initializing RL model: '' @ message e) s
      | None \<Rightarrow>
          let rl1 = loadModel (modelFileLoads c) ((rlStrategy s)\<lparr>rl_alpacaClient := True\<rparr>)
          in createSystemLog (now c) userId INFO
               (''Reinforcement learning model initialized'' @ testMsg test) (s\<lparr>rlStrategy := rl1\<rparr>))"

definition startTradingBot :: "collaborators \<Rightarrow> int \<Rightarrow> world \<Rightarrow> world" where
  "startTradingBot c userId s =
     (let s0 = stopTradingBot userId s in
      case (getApiKeyByUserId s0 userId, getBotSettingsByUserId s0 userId) of
        (Some (keyId, apiKey), Some (settingsId, settings)) \<Rightarrow>
          if \<not> isActive settings then s0
          else
            let test = isTestMode (Some (keyId, apiKey));
                s1 = (if strategy settings = ''reinforcement''
                      then initReinforcement c userId test s0 else s0);
                s2 = createSystemLog (now c) userId INFO
                       (''Bot started with '' @ strategy settings @ '' strategy'' @ testMsg test) s1;
                s3 = broadcastToUser userId (BotStatus True (Some (strategy settings))) s2;
                (intervalId, s4) = setInterval userId (updateInterval (tradingFrequency settings)) s3
            in s4\<lparr>activeBots := DAList.update userId intervalId (activeBots s4)\<rparr>
      | _ \<Rightarrow> s0)"

subsection \<open>The start, from one \<^verbatim>\<open>await\<close> to the next\<close>

text \<open>
  \<^verbatim>\<open>startTradingBot\<close> is an \<^verbatim>\<open>async\<close> function, and none of its three call sites (lines
  560, 571 and 781) awaits it. The definition above is the function from its call to its
  end with nothing else running in between. Here is the same body cut at its \<^verbatim>\<open>await\<close>s.
  The call runs \<^verbatim>\<open>stopTradingBot\<close> and the read of the API key, up to the \<^verbatim>\<open>await\<close> of line
  276, and returns to the caller. Each later piece runs when the promise it waits for has
  settled, after whatever the process has done in the meantime. The methods of the storage
  read and write when they are called; the \<^verbatim>\<open>await\<close> hands over the result later.

  A suspended start is the \<^verbatim>\<open>await\<close> it stands at and the local variables it still uses:
  at line 276 with the key row just read; at line 277 with the key row and the settings
  row just read; at line 302, in \<^verbatim>\<open>loadModel\<close>; at line 310 or 319, the log line of the
  set-up of the learned-model strategy; at line 329, the log line of the start.
\<close>

datatype start_task =
    AwaitApiKey int "(nat \<times> ApiKey) option"
  | AwaitBotSettings int "(nat \<times> ApiKey) option" "(nat \<times> BotSettings) option"
  | AwaitLoadModel int bool BotSettings
  | AwaitInitLog int bool BotSettings
  | AwaitStartLog int BotSettings

definition startTradingBot_call :: "int \<Rightarrow> world \<Rightarrow> world \<times> start_task" where
  "startTradingBot_call userId s =
     (let s0 = stopTradingBot userId s
      in (s0, AwaitApiKey userId (getApiKeyByUserId s0 userId)))"

text \<open>
  One piece: the state after it, and the \<^verbatim>\<open>await\<close> the start stands at then, or \<open>None\<close> when
  the function has returned. \<^verbatim>\<open>loadModel\<close> makes the agent when it is called and sets
  \<^verbatim>\<open>modelLoaded\<close> when the file has been read, which is real file input. The timer is made
  and registered in the last piece, lines 336 to 443.
\<close>

fun startTradingBot_resume :: "collaborators \<Rightarrow> start_task \<Rightarrow> world \<Rightarrow> world \<times> start_task option" where
  "startTradingBot_resume c (AwaitApiKey userId apiKey) s =
     (s, Some (AwaitBotSettings userId apiKey (getBotSettingsByUserId s userId)))"
| "startTradingBot_resume c (AwaitBotSettings userId apiKey settingsRow) s =
     (case (apiKey, settingsRow) of
        (Some (keyId, key), Some (settingsId, settings)) \<Rightarrow>
          if \<not> isActive settings then (s, None)
          else
            let test = isTestMode (Some (keyId, key))
            in if strategy settings = ''reinforcement''
               then
                 (case rlInitError c of
                    Some e \<Rightarrow>
                      (createSystemLog (now c) userId ERROR
                         (''Error initializing RL model: '' @ message e) s,
                       Some (AwaitInitLog userId test settings))
                  | None \<Rightarrow>
                      let rl0 = (rlStrategy s)\<lparr>rl_alpacaClient := True\<rparr>;
                          rl1 = (if \<not> rl_agent rl0 then initializeAgent rl0 else rl0)
                      in (s\<lparr>rlStrategy := rl1\<rparr>, Some (AwaitLoadModel userId test settings)))
               else
                 (createSystemLog (now c) userId INFO
                    (''Bot started with '' @ strategy settings @ '' strategy'' @ testMsg test) s,
                  Some (AwaitStartLog userId settings))
      | _ \<Rightarrow> (s, None))"
| "startTradingBot_resume c (AwaitLoadModel userId test settings) s =
     (let rl1 = (if modelFileLoads c then (rlStrategy s)\<lparr>modelLoaded := True\<rparr> else rlStrategy s)
      in (createSystemLog (now c) userId INFO
            (''Reinforcement learning model initialized'' @ testMsg test) (s\<lparr>rlStrategy := rl1\<rparr>),
          Some (AwaitInitLog userId test settings)))"
| "startTradingBot_resume c (AwaitInitLog userId test settings) s =
     (createSystemLog (now c) userId INFO
        (''Bot started with '' @ strategy settings @ '' strategy'' @ testMsg test) s,
      Some (AwaitStartLog userId settings))"
| "startTradingBot_resume c (AwaitStartLog userId settings) s =
     (let s3 = broadcastToUser userId (BotStatus True (Some (strategy settings))) s;
          (intervalId, s4) = setInterval userId (updateInterval (tradingFrequency settings)) s3
      in (s4\<lparr>activeBots := DAList.update userId intervalId (activeBots s4)\<rparr>, None))"

text \<open>The pieces one after the other with nothing in between, at most \<open>n\<close> of them.\<close>

fun startTradingBot_alone :: "nat \<Rightarrow> collaborators \<Rightarrow> world \<times> start_task option \<Rightarrow> world" where
  "startTradingBot_alone n c (s, None) = s"
| "startTradingBot_alone 0 c (s, Some t) = s"
| "startTradingBot_alone (Suc n) c (s, Some t) = startTradingBot_alone n c (startTradingBot_resume c t s)"

section \<open>Messages of a dashboard connection\<close>

text \<open>
  The \<^verbatim>\<open>message\<close> listener of a connection in \<^verbatim>\<open>registerRoutes\<close>, lines 564 to 594: the
  branch taken by every message that is not an \<^verbatim>\<open>auth\<close> message. The connection's
  \<^verbatim>\<open>userId\<close> is \<^verbatim>\<open>null\<close> until an \<^verbatim>\<open>auth\<close> message sets it, and the branch tests it for
  truth, which 0 fails too.

  The listener is an \<^verbatim>\<open>async\<close> function too, and it is cut at its \<^verbatim>\<open>await\<close>s in the same
  way: for \<^verbatim>\<open>startBot\<close> at the read of the settings (line 567) and at their update (line
  570); for \<^verbatim>\<open>stopBot\<close> at the read (line 574), at the update (line 577) and at the log
  line (line 581). After the update the \<^verbatim>\<open>startBot\<close> branch calls \<^verbatim>\<open>startTradingBot\<close> and
  does not wait for it: the call runs up to the first \<^verbatim>\<open>await\<close> of the start, the listener
  returns, and the start is left suspended. The \<^verbatim>\<open>stopBot\<close> branch calls
  \<^verbatim>\<open>stopTradingBot\<close>, which is not \<^verbatim>\<open>async\<close> and runs at once.
\<close>

datatype client_message = StartBot | StopBot | OtherMessage

datatype client_task =
    StartBotAwaitSettings int "(nat \<times> BotSettings) option"
  | StartBotAwaitUpdate int
  | StopBotAwaitSettings int "(nat \<times> BotSettings) option"
  | StopBotAwaitUpdate int
  | StopBotAwaitLog int

datatype task = StartTask start_task | ClientTask client_task

text \<open>The arrival of a message: the state, and what is left suspended.\<close>

definition handleClientMessage :: "int option \<Rightarrow> client_message \<Rightarrow> world \<Rightarrow> world \<times> task list" where
  "handleClientMessage connUserId msg s =
     (case connUserId of
        None \<Rightarrow> (s, [])
      | Some userId \<Rightarrow>
          if userId = 0 then (s, [])
          else
            case msg of
              StartBot \<Rightarrow>
                (s, [ClientTask (StartBotAwaitSettings userId (getBotSettingsByUserId s userId))])
            | StopBot \<Rightarrow>
                (s, [ClientTask (StopBotAwaitSettings userId (getBotSettingsByUserId s userId))])
            | OtherMessage \<Rightarrow> (s, []))"

fun handleClientMessage_resume :: "collaborators \<Rightarrow> client_task \<Rightarrow> world \<Rightarrow> world \<times> task list" where
  "handleClientMessage_resume c (StartBotAwaitSettings userId settingsRow) s =
     (case settingsRow of
        None \<Rightarrow> (s, [])
      | Some (settingsId, settings) \<Rightarrow>
          (snd (updateBotSettings (now c) settingsId (\<lambda>b. b\<lparr>isActive := True\<rparr>) s),
           [ClientTask (StartBotAwaitUpdate userId)]))"
| "handleClientMessage_resume c (StartBotAwaitUpdate userId) s =
     (let (s1, t) = startTradingBot_call userId s in (s1, [StartTask t]))"
| "handleClientMessage_resume c (StopBotAwaitSettings userId settingsRow) s =
     (case settingsRow of
        None \<Rightarrow> (s, [])
      | Some (settingsId, settings) \<Rightarrow>
          (snd (updateBotSettings (now c) settingsId (\<lambda>b. b\<lparr>isActive := False\<rparr>) s),
           [ClientTask (StopBotAwaitUpdate userId)]))"
| "handleClientMessage_resume c (StopBotAwaitUpdate userId) s =
     (createSystemLog (now c) userId INFO ''Bot stopped'' (stopTradingBot userId s),
      [ClientTask (StopBotAwaitLog userId)])"
| "handleClientMessage_resume c (StopBotAwaitLog userId) s =
     (broadcastToUser userId (BotStatus False None) s, [])"

section \<open>Observations on runs\<close>

text \<open>What a step from state \<open>s\<close> to state \<open>s'\<close> added to the two logs of outside effects.\<close>

definition newBrokerCalls :: "world \<Rightarrow> world \<Rightarrow> broker_call list" where
  "newBrokerCalls s s' = drop (length (brokerCalls s)) (brokerCalls s')"

definition newBroadcasts :: "world \<Rightarrow> world \<Rightarrow> (int \<times> ws_message) list" where
  "newBroadcasts s s' = drop (length (broadcasts s)) (broadcasts s')"

fun isSubmitOrder :: "broker_call \<Rightarrow> bool" where
  "isSubmitOrder (SubmitOrder r) = True"
| "isSubmitOrder GetAccount = False"

definition submitOrderCalls :: "world \<Rightarrow> world \<Rightarrow> broker_call list" where
  "submitOrderCalls s s' = filter isSubmitOrder (newBrokerCalls s s')"

fun isPositionUpdate :: "ws_message \<Rightarrow> bool" where
  "isPositionUpdate (PositionUpdate p) = True"
| "isPositionUpdate m = False"

text \<open>The tick handler up to and including the reconciliation of the position.\<close>

definition upToReconciliation :: "collaborators \<Rightarrow> int \<Rightarrow> MarketData \<Rightarrow> world \<Rightarrow> world" where
  "upToReconciliation c userId tick s =
     reconcilePosition c userId (isTestMode (getApiKeyByUserId s userId)) tick
       (broadcastToUser userId (MarketDataMsg tick)
          (s\<lparr>marketDataCache := DAList.update (md_symbol tick) tick (marketDataCache s)\<rparr>))"

text \<open>The columns that the reconciliation writes, from the row as it was and the tick.\<close>

definition reconciled :: "int \<Rightarrow> MarketData \<Rightarrow> Position \<Rightarrow> Position" where
  "reconciled time tick p =
     p\<lparr>currentPrice := md_price tick,
       marketValue := num_mul (qty p) (md_price tick),
       unrealizedPl := num_mul (qty p) (num_sub (md_price tick) (entryPrice p)),
       unrealizedPlPerc :=
         num_mul (num_div (num_sub (md_price tick) (entryPrice p)) (entryPrice p)) (Fin 100),
       pos_updatedAt := time\<rparr>"

text \<open>The handles of the live timers that work for a user.\<close>

definition liveHandles :: "world \<Rightarrow> int \<Rightarrow> nat list" where
  "liveHandles s userId = map fst (filter (\<lambda>(handle, t). tm_userId t = userId) (entries (timers s)))"

text \<open>Every live timer is the one that \<^verbatim>\<open>activeBots\<close> holds for its user.\<close>

definition botsRegistered :: "world \<Rightarrow> bool" where
  "botsRegistered s =
     list_all (\<lambda>(handle, t). DAList.lookup (activeBots s) (tm_userId t) = Some handle) (entries (timers s))"

text \<open>
  The process after start-up: empty tables, empty maps, no timer. The argument says whether
  a model file is there to load.
\<close>

definition initialWorld :: "bool \<Rightarrow> world" where
  "initialWorld fileLoads =
     \<lparr>apiKeys = DAList.empty, botSettings = DAList.empty, positions = DAList.empty,
      trades = DAList.empty, performanceMetrics = DAList.empty, systemLogs = DAList.empty,
      nextId_trades = 1, nextId_systemLogs = 1, marketDataCache = DAList.empty,
      activeBots = DAList.empty, timers = DAList.empty, nextTimer = 1,
      rlStrategy = getReinforcementLearningStrategy fileLoads, broadcasts = [], brokerCalls = []\<rparr>"

text \<open>
  The process as far as the scheduler goes: the state and the suspended starts and
  listeners, in the order in which they were suspended. One step is one piece of code that
  runs without interruption on the single thread: a message of a connection arrives and its
  listener runs to its first \<^verbatim>\<open>await\<close>; or \<^verbatim>\<open>startTradingBot\<close> is called by a caller that
  does not wait for it (lines 560 and 781); or the suspended start or listener at a given
  position runs on to its next \<^verbatim>\<open>await\<close> or to its end, and what it leaves suspended takes
  its place. Each step comes with what it gets from outside.
\<close>

definition resumeTask :: "collaborators \<Rightarrow> task \<Rightarrow> world \<Rightarrow> world \<times> task list" where
  "resumeTask c t s =
     (case t of
        StartTask st \<Rightarrow>
          (case startTradingBot_resume c st s of
             (s', None) \<Rightarrow> (s', [])
           | (s', Some st') \<Rightarrow> (s', [StartTask st']))
      | ClientTask ct \<Rightarrow> handleClientMessage_resume c ct s)"

fun resumeAt :: "collaborators \<Rightarrow> nat \<Rightarrow> task list \<Rightarrow> world \<Rightarrow> world \<times> task list" where
  "resumeAt c n [] s = (s, [])"
| "resumeAt c 0 (t # ts) s = (let (s', next) = resumeTask c t s in (s', next @ ts))"
| "resumeAt c (Suc n) (t # ts) s = (let (s', ts') = resumeAt c n ts s in (s', t # ts'))"

datatype event =
    Message "int option" client_message
  | Call int
  | Resume nat

fun step :: "world \<times> task list \<Rightarrow> collaborators \<times> event \<Rightarrow> world \<times> task list" where
  "step (s, suspended) (c, Message connUserId msg) =
     (let (s', spawned) = handleClientMessage connUserId msg s in (s', suspended @ spawned))"
| "step (s, suspended) (c, Call userId) =
     (let (s', t) = startTradingBot_call userId s in (s', suspended @ [StartTask t]))"
| "step (s, suspended) (c, Resume n) = resumeAt c n suspended s"

definition run :: "world \<times> task list \<Rightarrow> (collaborators \<times> event) list \<Rightarrow> world \<times> task list" where
  "run p evs = foldl step p evs"

section \<open>Sample data\<close>

definition btcTick :: "real \<Rightarrow> MarketData" where
  "btcTick p =
     \<lparr>md_symbol = ''BTCUSD'', md_price = Fin p, md_timestamp = 0, md_change = Fin 0,
      md_changePercent = Fin 0\<rparr>"

definition paperKey :: ApiKey where
  "paperKey =
     \<lparr>ak_userId = 1, alpacaApiKey = ''PK123'', alpacaSecretKey = ''secret'', environment = ''paper''\<rparr>"

definition activeSettings :: "string \<Rightarrow> string \<Rightarrow> BotSettings" where
  "activeSettings strategyName frequency =
     \<lparr>bs_userId = 1, isActive = True, strategy = strategyName, riskLevel = 5,
      tradingFrequency = frequency, bs_updatedAt = 0\<rparr>"

definition btcPosition :: Position where
  "btcPosition =
     \<lparr>pos_userId = 1, pos_symbol = ''BTCUSD'', qty = Fin 1, entryPrice = Fin 100,
      currentPrice = Fin 100, marketValue = Fin 100, unrealizedPl = Fin 0, unrealizedPlPerc = Fin 0,
      pos_updatedAt = 0\<rparr>"

text \<open>A strategy that always answers with the same action and confidence.\<close>

definition fixedStrategy :: "action \<Rightarrow> real \<Rightarrow> TradingStrategy" where
  "fixedStrategy a conf =
     \<lparr>analyze = (\<lambda>time symbol data historicalData.
                   Inr \<lparr>sig_symbol = symbol, sig_action = a, sig_confidence = Fin conf,
                        sig_timestamp = time\<rparr>),
      getName = ''Fixed''\<rparr>"

definition filledOrder :: "OrderRequest \<Rightarrow> OrderResponse" where
  "filledOrder r =
     \<lparr>ord_id = ''o1'', ord_symbol = or_symbol r, ord_side = or_side r, ord_type = or_type r,
      ord_qty = or_qty r, ord_status = ''accepted''\<rparr>"

text \<open>
  Collaborators around a given strategy factory and a given answer of the broker to an order.
\<close>

definition sampleCollaborators ::
  "(string \<Rightarrow> TradingStrategy) \<Rightarrow> (OrderRequest \<Rightarrow> error + OrderResponse) \<Rightarrow> collaborators" where
  "sampleCollaborators factory broker =
     \<lparr>now = 1000, toFixed1 = (\<lambda>n. ''n''), numToString = (\<lambda>n. ''n''),
      getAccount = Inr \<lparr>acc_portfolio_value = Fin 10000, acc_buying_power = Fin 10000\<rparr>,
      submitOrder = broker, predict = (\<lambda>state. Inr []),
      calculateIndicators = (\<lambda>data symbol. Inr []), strategyFactory = factory,
      modelFileLoads = False, rlInitError = None\<rparr>"

text \<open>User 1 with active settings, with or without a stored API key, with or without a position.\<close>

definition sampleWorld :: "bool \<Rightarrow> bool \<Rightarrow> string \<Rightarrow> string \<Rightarrow> world" where
  "sampleWorld withKey withPosition strategyName frequency =
     (initialWorld False)
       \<lparr>apiKeys := (if withKey then DAList.update 1 paperKey DAList.empty else DAList.empty),
        botSettings := DAList.update 1 (activeSettings strategyName frequency) DAList.empty,
        positions := (if withPosition then DAList.update 1 btcPosition DAList.empty else DAList.empty)\<rparr>"

section \<open>Auxiliary facts\<close>

subsection \<open>Numbers\<close>

lemma num_lt_asym: "num_lt a b \<Longrightarrow> \<not> num_lt b a"
  by (cases a; cases b) auto

lemma num_lt_irrefl: "\<not> num_lt a a"
  by (cases a) auto

lemma num_le_not_gt: "num_le a b \<Longrightarrow> \<not> num_gt a b"
  by (auto simp: num_le_def num_gt_def num_lt_irrefl dest: num_lt_asym)

subsection \<open>Maps\<close>

lemma entries_lookup: "(k, v) \<in> set (entries m) \<Longrightarrow> DAList.lookup m k = Some v"
  unfolding entries_def by transfer simp

lemma find_entries_lookup: "find P (entries m) = Some (k, v) \<Longrightarrow> DAList.lookup m k = Some v"
  by (auto simp: find_Some_iff intro!: entries_lookup)

lemma find_filter_entries_lookup:
  "find P (filter Q (entries m)) = Some (k, v) \<Longrightarrow> DAList.lookup m k = Some v"
  by (auto simp: find_Some_iff intro!: entries_lookup dest: nth_mem)

lemma filter_key_update:
  "distinct (map fst xs) \<Longrightarrow> filter (\<lambda>(k', v'). k' = k) (AList.update k v xs) = [(k, v)]"
proof (induction xs)
  case Nil
  then show ?case by simp
next
  case (Cons x xs)
  obtain a b where x: "x = (a, b)" by (cases x)
  show ?case
  proof (cases "a = k")
    case True
    have "filter (\<lambda>(k', v'). k' = k) xs = []"
      using Cons.prems x True by (auto simp: filter_empty_conv image_iff)
    with x True show ?thesis by simp
  next
    case False
    with Cons x show ?thesis by simp
  qed
qed

lemma historicalWindow_update:
  "historicalWindow (DAList.update symbol tick cache) symbol = [tick]"
  unfolding historicalWindow_def entries_def
  by transfer (simp add: filter_key_update)


subsection \<open>Frames\<close>

lemma createSystemLog_simps [simp]:
  "brokerCalls (createSystemLog t u l m s) = brokerCalls s"
  "broadcasts (createSystemLog t u l m s) = broadcasts s"
  "trades (createSystemLog t u l m s) = trades s"
  "nextId_trades (createSystemLog t u l m s) = nextId_trades s"
  "positions (createSystemLog t u l m s) = positions s"
  "apiKeys (createSystemLog t u l m s) = apiKeys s"
  "botSettings (createSystemLog t u l m s) = botSettings s"
  "marketDataCache (createSystemLog t u l m s) = marketDataCache s"
  "timers (createSystemLog t u l m s) = timers s"
  "activeBots (createSystemLog t u l m s) = activeBots s"
  "nextTimer (createSystemLog t u l m s) = nextTimer s"
  "nextId_systemLogs (createSystemLog t u l m s) = nextId_systemLogs s + 1"
  "systemLogs (createSystemLog t u l m s) =
     DAList.update (nextId_systemLogs s)
       \<lparr>log_userId = u, level = l, log_message = m, log_timestamp = t\<rparr> (systemLogs s)"
  by (simp_all add: createSystemLog_def Let_def)

lemma createTrade_simps [simp]:
  "brokerCalls (createTrade t u sy sd q p ot st s) = brokerCalls s"
  "broadcasts (createTrade t u sy sd q p ot st s) = broadcasts s"
  "positions (createTrade t u sy sd q p ot st s) = positions s"
  "apiKeys (createTrade t u sy sd q p ot st s) = apiKeys s"
  "botSettings (createTrade t u sy sd q p ot st s) = botSettings s"
  "marketDataCache (createTrade t u sy sd q p ot st s) = marketDataCache s"
  "timers (createTrade t u sy sd q p ot st s) = timers s"
  "activeBots (createTrade t u sy sd q p ot st s) = activeBots s"
  "nextTimer (createTrade t u sy sd q p ot st s) = nextTimer s"
  "nextId_systemLogs (createTrade t u sy sd q p ot st s) = nextId_systemLogs s"
  "systemLogs (createTrade t u sy sd q p ot st s) = systemLogs s"
  by (simp_all add: createTrade_def Let_def)

lemma broadcastToUser_simps [simp]:
  "brokerCalls (broadcastToUser u m s) = brokerCalls s"
  "broadcasts (broadcastToUser u m s) = broadcasts s @ [(u, m)]"
  "trades (broadcastToUser u m s) = trades s"
  "nextId_trades (broadcastToUser u m s) = nextId_trades s"
  "positions (broadcastToUser u m s) = positions s"
  "apiKeys (broadcastToUser u m s) = apiKeys s"
  "botSettings (broadcastToUser u m s) = botSettings s"
  "marketDataCache (broadcastToUser u m s) = marketDataCache s"
  "timers (broadcastToUser u m s) = timers s"
  "activeBots (broadcastToUser u m s) = activeBots s"
  "nextTimer (broadcastToUser u m s) = nextTimer s"
  "nextId_systemLogs (broadcastToUser u m s) = nextId_systemLogs s"
  "systemLogs (broadcastToUser u m s) = systemLogs s"
  "performanceMetrics (broadcastToUser u m s) = performanceMetrics s"
  by (simp_all add: broadcastToUser_def)

lemma callBroker_simps [simp]:
  "brokerCalls (callBroker b s) = brokerCalls s @ [b]"
  "broadcasts (callBroker b s) = broadcasts s"
  "trades (callBroker b s) = trades s"
  "nextId_trades (callBroker b s) = nextId_trades s"
  "positions (callBroker b s) = positions s"
  "apiKeys (callBroker b s) = apiKeys s"
  "botSettings (callBroker b s) = botSettings s"
  "marketDataCache (callBroker b s) = marketDataCache s"
  "timers (callBroker b s) = timers s"
  "activeBots (callBroker b s) = activeBots s"
  "nextTimer (callBroker b s) = nextTimer s"
  "nextId_systemLogs (callBroker b s) = nextId_systemLogs s"
  "systemLogs (callBroker b s) = systemLogs s"
  by (simp_all add: callBroker_def)

lemma getApiKeyByUserId_cong: "apiKeys s' = apiKeys s \<Longrightarrow> getApiKeyByUserId s' u = getApiKeyByUserId s u"
  by (simp add: getApiKeyByUserId_def)

lemma getBotSettingsByUserId_cong:
  "botSettings s' = botSettings s \<Longrightarrow> getBotSettingsByUserId s' u = getBotSettingsByUserId s u"
  by (simp add: getBotSettingsByUserId_def)

text \<open>The reconciliation, as a change of the table of positions.\<close>

lemma reconcilePosition_positions:
  "positions (reconcilePosition c u test tick s) =
     (case find (\<lambda>(ident, p). pos_symbol p = md_symbol tick) (getPositionsByUserId s u) of
        None \<Rightarrow> positions s
      | Some (ident, p) \<Rightarrow> DAList.update ident (reconciled (now c) tick p) (positions s))"
proof (cases "find (\<lambda>(ident, p). pos_symbol p = md_symbol tick) (getPositionsByUserId s u)")
  case None
  then show ?thesis by (simp add: reconcilePosition_def)
next
  case (Some row)
  obtain ident p where row: "row = (ident, p)" by (cases row)
  have look: "DAList.lookup (positions s) ident = Some p"
    using Some row unfolding getPositionsByUserId_def by (auto dest: find_filter_entries_lookup)
  show ?thesis
    using Some row look
    by (simp add: reconcilePosition_def updatePosition_def updatePerformanceMetrics_def
        reconciled_def Let_def split: option.splits prod.splits)
qed

lemma reconcilePosition_frame:
  "brokerCalls (reconcilePosition c u test tick s) = brokerCalls s"
  "trades (reconcilePosition c u test tick s) = trades s"
  "nextId_trades (reconcilePosition c u test tick s) = nextId_trades s"
  "systemLogs (reconcilePosition c u test tick s) = systemLogs s"
  "nextId_systemLogs (reconcilePosition c u test tick s) = nextId_systemLogs s"
  "apiKeys (reconcilePosition c u test tick s) = apiKeys s"
  "botSettings (reconcilePosition c u test tick s) = botSettings s"
  "marketDataCache (reconcilePosition c u test tick s) = marketDataCache s"
  "timers (reconcilePosition c u test tick s) = timers s"
  "activeBots (reconcilePosition c u test tick s) = activeBots s"
  by (simp_all add: reconcilePosition_def updatePosition_def updatePerformanceMetrics_def Let_def
      split: option.splits prod.splits)

lemma reconcilePosition_broadcasts:
  "\<exists>new. broadcasts (reconcilePosition c u test tick s) = broadcasts s @ new
     \<and> (find (\<lambda>(ident, p). pos_symbol p = md_symbol tick) (getPositionsByUserId s u) = None
         \<longrightarrow> new = [])"
  by (simp add: reconcilePosition_def updatePosition_def updatePerformanceMetrics_def Let_def
      split: option.splits prod.splits)


lemma upToReconciliation_frame:
  "brokerCalls (upToReconciliation c u tick s) = brokerCalls s"
  "trades (upToReconciliation c u tick s) = trades s"
  "nextId_trades (upToReconciliation c u tick s) = nextId_trades s"
  "systemLogs (upToReconciliation c u tick s) = systemLogs s"
  "nextId_systemLogs (upToReconciliation c u tick s) = nextId_systemLogs s"
  "apiKeys (upToReconciliation c u tick s) = apiKeys s"
  "botSettings (upToReconciliation c u tick s) = botSettings s"
  "marketDataCache (upToReconciliation c u tick s) = DAList.update (md_symbol tick) tick (marketDataCache s)"
  "timers (upToReconciliation c u tick s) = timers s"
  "activeBots (upToReconciliation c u tick s) = activeBots s"
  by (simp_all add: upToReconciliation_def reconcilePosition_frame)

lemma upToReconciliation_positions:
  "positions (upToReconciliation c u tick s) =
     (case find (\<lambda>(ident, p). pos_symbol p = md_symbol tick) (getPositionsByUserId s u) of
        None \<Rightarrow> positions s
      | Some (ident, p) \<Rightarrow> DAList.update ident (reconciled (now c) tick p) (positions s))"
  by (simp add: upToReconciliation_def reconcilePosition_positions getPositionsByUserId_def
      split: option.splits)

lemma upToReconciliation_broadcasts:
  "\<exists>new. broadcasts (upToReconciliation c u tick s) = broadcasts s @ (u, MarketDataMsg tick) # new
     \<and> (find (\<lambda>(ident, p). pos_symbol p = md_symbol tick) (getPositionsByUserId s u) = None
         \<longrightarrow> new = [])"
proof -
  let ?s2 = "broadcastToUser u (MarketDataMsg tick)
               (s\<lparr>marketDataCache := DAList.update (md_symbol tick) tick (marketDataCache s)\<rparr>)"
  have same: "getPositionsByUserId ?s2 u = getPositionsByUserId s u"
    by (simp add: getPositionsByUserId_def)
  from reconcilePosition_broadcasts [of c u "isTestMode (getApiKeyByUserId s u)" tick ?s2]
  show ?thesis
    unfolding upToReconciliation_def same by (auto simp: broadcastToUser_def)
qed

text \<open>The evaluation: one SIGNAL log line and one broadcast when there is a signal.\<close>

lemma evaluateStrategy_frame:
  assumes "evaluateStrategy c u test b tick s = (s', r)"
  shows "brokerCalls s' = brokerCalls s" "trades s' = trades s" "nextId_trades s' = nextId_trades s"
    "positions s' = positions s" "apiKeys s' = apiKeys s" "botSettings s' = botSettings s"
    "marketDataCache s' = marketDataCache s" "timers s' = timers s" "activeBots s' = activeBots s"
  using assms
  by (auto simp: evaluateStrategy_def Let_def split: if_splits prod.splits option.splits sum.splits)

lemma evaluateStrategy_signal:
  assumes "evaluateStrategy c u test b tick s = (s', Some signal)"
  shows "broadcasts s' = broadcasts s @ [(u, StrategySignalMsg signal)]"
    "nextId_systemLogs s' = nextId_systemLogs s + 1"
    "\<exists>text. systemLogs s' =
        DAList.update (nextId_systemLogs s)
          \<lparr>log_userId = u, level = SIGNAL, log_message = text, log_timestamp = now c\<rparr> (systemLogs s)"
  using assms
  by (auto simp: evaluateStrategy_def Let_def split: if_splits prod.splits option.splits sum.splits)

lemma evaluateStrategy_none:
  assumes "evaluateStrategy c u test b tick s = (s', None)"
  shows "broadcasts s' = broadcasts s" "nextId_systemLogs s' = nextId_systemLogs s"
    "systemLogs s' = systemLogs s"
  using assms
  by (auto simp: evaluateStrategy_def Let_def split: if_splits prod.splits option.splits sum.splits)

lemma evaluateStrategy_rule_based:
  assumes "strategy b \<noteq> ''reinforcement''"
  shows "evaluateStrategy c u test b tick s =
     (case analyze (strategyFactory c (strategy b)) (now c) (md_symbol tick) [tick]
             (Some (historicalWindow (marketDataCache s) (md_symbol tick))) of
        Inl e \<Rightarrow> (s, None)
      | Inr signal \<Rightarrow>
          (broadcastToUser u (StrategySignalMsg signal)
             (createSystemLog (now c) u SIGNAL
                (getName (strategyFactory c (strategy b)) @ '' '' @ action_text (sig_action signal)
                 @ '' signal detected for '' @ sig_symbol signal @ '' (confidence: ''
                 @ toFixed1 c (sig_confidence signal) @ ''%)'' @ testMsg test) s),
           Some signal))"
  using assms by (simp add: evaluateStrategy_def Let_def split: sum.splits)

text \<open>In the handler the learned-model strategy gets one tick as its data, and holds.\<close>

lemma evaluateStrategy_reinforcement_holds:
  assumes "strategy b = ''reinforcement''" "evaluateStrategy c u test b tick s = (s', Some signal)"
  shows "signal = hold_signal (md_symbol tick) (now c)"
  using assms
  by (auto simp: evaluateStrategy_def generateSignal_def Let_def
      split: if_splits prod.splits option.splits)

text \<open>The handler, in terms of its parts.\<close>

lemma handler_unfold:
  "handleAlpacaWebsocketMessage c u (Some tick) s =
     (let s3 = upToReconciliation c u tick s in
      case getBotSettingsByUserId s u of
        None \<Rightarrow> s3
      | Some (settingsId, b) \<Rightarrow>
          if isActive b then
            (case evaluateStrategy c u (isTestMode (getApiKeyByUserId s u)) b tick s3 of
               (s4, None) \<Rightarrow> s4
             | (s4, Some signal) \<Rightarrow> decideOrder c u b signal s4)
          else s3)"
proof -
  have "getBotSettingsByUserId (upToReconciliation c u tick s) u = getBotSettingsByUserId s u"
    by (rule getBotSettingsByUserId_cong) (simp add: upToReconciliation_frame)
  then show ?thesis
    by (simp add: handleAlpacaWebsocketMessage_def upToReconciliation_def Let_def)
qed


subsection \<open>The order decision\<close>

lemma decideOrder_frame:
  "positions (decideOrder c u b signal s) = positions s"
  "apiKeys (decideOrder c u b signal s) = apiKeys s"
  "botSettings (decideOrder c u b signal s) = botSettings s"
  "marketDataCache (decideOrder c u b signal s) = marketDataCache s"
  "timers (decideOrder c u b signal s) = timers s"
  "activeBots (decideOrder c u b signal s) = activeBots s"
  by (simp_all add: decideOrder_def Let_def split: option.splits sum.splits prod.splits)

lemma decideOrder_closed_gate:
  "\<not> (sig_action signal \<noteq> Hold \<and> num_gt (sig_confidence signal) (Fin 70))
     \<Longrightarrow> decideOrder c u b signal s = s"
  by (auto simp: decideOrder_def)

lemma decideOrder_no_key: "getApiKeyByUserId s u = None \<Longrightarrow> decideOrder c u b signal s = s"
  by (simp add: decideOrder_def)

text \<open>What the order decision adds to the log of broker calls, case by case.\<close>

lemma decideOrder_calls:
  "newBrokerCalls s (decideOrder c u b signal s) = []
   \<or> newBrokerCalls s (decideOrder c u b signal s) = [GetAccount]
   \<or> (\<exists>r. newBrokerCalls s (decideOrder c u b signal s) = [GetAccount, SubmitOrder r]
          \<and> sig_action signal \<noteq> Hold \<and> num_gt (sig_confidence signal) (Fin 70))"
  by (simp add: decideOrder_def newBrokerCalls_def Let_def split: option.splits sum.splits prod.splits)

lemma decideOrder_rejected:
  assumes "SubmitOrder r \<in> set (newBrokerCalls s (decideOrder c u b signal s))"
    and "submitOrder c r = Inl e"
  shows "decideOrder c u b signal s =
           createSystemLog (now c) u ERROR (''Order execution failed: '' @ message e)
             (callBroker (SubmitOrder r) (callBroker GetAccount s))"
  using assms
  by (auto simp: decideOrder_def newBrokerCalls_def Let_def
      split: option.splits sum.splits prod.splits if_splits)

lemma decideOrder_trade:
  assumes "trades (decideOrder c u b signal s) \<noteq> trades s
           \<or> nextId_trades (decideOrder c u b signal s) \<noteq> nextId_trades s"
  shows "\<exists>r order. newBrokerCalls s (decideOrder c u b signal s) = [GetAccount, SubmitOrder r]
           \<and> submitOrder c r = Inr order"
  using assms
  by (auto simp: decideOrder_def newBrokerCalls_def Let_def
      split: option.splits sum.splits prod.splits if_splits)

lemma decideOrder_broadcasts:
  "\<exists>new. broadcasts (decideOrder c u b signal s) = broadcasts s @ new
     \<and> list_all (\<lambda>(v, m). \<not> isPositionUpdate m) new"
  by (simp add: decideOrder_def Let_def split: option.splits sum.splits prod.splits)

text \<open>The broker calls of a run of the handler are those of its order decision, if it has one.\<close>

lemma handler_calls:
  "newBrokerCalls s (handleAlpacaWebsocketMessage c u m s) = []
   \<or> newBrokerCalls s (handleAlpacaWebsocketMessage c u m s) = [GetAccount]
   \<or> (\<exists>r signal. newBrokerCalls s (handleAlpacaWebsocketMessage c u m s) = [GetAccount, SubmitOrder r]
          \<and> (u, StrategySignalMsg signal) \<in> set (newBroadcasts s (handleAlpacaWebsocketMessage c u m s))
          \<and> sig_action signal \<noteq> Hold \<and> num_gt (sig_confidence signal) (Fin 70))"
proof (cases m)
  case None
  then show ?thesis by (simp add: handleAlpacaWebsocketMessage_def newBrokerCalls_def)
next
  case (Some tick)
  let ?s3 = "upToReconciliation c u tick s"
  let ?h = "handleAlpacaWebsocketMessage c u (Some tick) s"
  have s3: "brokerCalls ?s3 = brokerCalls s" by (simp add: upToReconciliation_frame)
  obtain pre where pre: "broadcasts ?s3 = broadcasts s @ pre"
    using upToReconciliation_broadcasts [of c u tick s] by auto
  show ?thesis
  proof (cases "getBotSettingsByUserId s u")
    case None
    with Some s3 show ?thesis by (simp add: handler_unfold newBrokerCalls_def)
  next
    case (Some row)
    obtain i b where row: "row = (i, b)" by (cases row)
    show ?thesis
    proof (cases "isActive b")
      case False
      with Some row \<open>m = Some tick\<close> s3 show ?thesis by (simp add: handler_unfold newBrokerCalls_def)
    next
      case True
      obtain s4 res where ev: "evaluateStrategy c u (isTestMode (getApiKeyByUserId s u)) b tick ?s3 = (s4, res)"
        by (cases "evaluateStrategy c u (isTestMode (getApiKeyByUserId s u)) b tick ?s3")
      have s4: "brokerCalls s4 = brokerCalls s" using evaluateStrategy_frame(1) [OF ev] s3 by simp
      show ?thesis
      proof (cases res)
        case None
        with Some row True ev \<open>m = Some tick\<close> s4 show ?thesis
          by (simp add: handler_unfold newBrokerCalls_def)
      next
        case (Some signal)
        have h: "?h = decideOrder c u b signal s4"
          using \<open>getBotSettingsByUserId s u = Some row\<close> row True ev Some by (simp add: handler_unfold)
        have calls: "newBrokerCalls s ?h = newBrokerCalls s4 (decideOrder c u b signal s4)"
          using h s4 by (simp add: newBrokerCalls_def)
        have b4: "broadcasts s4 = broadcasts s @ pre @ [(u, StrategySignalMsg signal)]"
          using evaluateStrategy_signal(1) [of c u _ b tick ?s3 s4 signal] ev Some pre by simp
        obtain post where "broadcasts (decideOrder c u b signal s4) = broadcasts s4 @ post"
          using decideOrder_broadcasts [of c u b signal s4] by auto
        then have mem: "(u, StrategySignalMsg signal) \<in> set (newBroadcasts s ?h)"
          using h b4 by (simp add: newBroadcasts_def)
        from decideOrder_calls [of s4 c u b signal] calls mem \<open>m = Some tick\<close>
        show ?thesis by auto
      qed
    qed
  qed
qed

subsection \<open>Runs of the handler\<close>

lemma handler_positions:
  "positions (handleAlpacaWebsocketMessage c u (Some tick) s) = positions (upToReconciliation c u tick s)"
  by (auto simp: handler_unfold Let_def decideOrder_frame
      split: option.splits prod.splits dest: evaluateStrategy_frame(4))

text \<open>
  A run on a tick either ends without an order decision, and then has called the broker for
  nothing and written no trade, or it is the order decision for the signal of the evaluation.
\<close>

lemma handler_shape:
  "(brokerCalls (handleAlpacaWebsocketMessage c u (Some tick) s) = brokerCalls s
      \<and> trades (handleAlpacaWebsocketMessage c u (Some tick) s) = trades s
      \<and> nextId_trades (handleAlpacaWebsocketMessage c u (Some tick) s) = nextId_trades s)
   \<or> (\<exists>i b s4 signal.
         getBotSettingsByUserId s u = Some (i, b) \<and> isActive b
         \<and> evaluateStrategy c u (isTestMode (getApiKeyByUserId s u)) b tick (upToReconciliation c u tick s)
             = (s4, Some signal)
         \<and> handleAlpacaWebsocketMessage c u (Some tick) s = decideOrder c u b signal s4)"
  by (auto simp: handler_unfold Let_def upToReconciliation_frame
      split: option.splits prod.splits dest: evaluateStrategy_frame(1,2,3))

subsection \<open>Unfolding on sample data\<close>

lemmas run_defs = entries_def update.rep_eq empty.rep_eq lookup.rep_eq delete.rep_eq
  handleAlpacaWebsocketMessage_def reconcilePosition_def evaluateStrategy_def decideOrder_def
  buildOrderRequest_def defaultOrder_def historicalWindow_def
  getApiKeyByUserId_def getBotSettingsByUserId_def getPositionsByUserId_def getPerformanceMetricsByUserId_def
  updatePosition_def updatePerformanceMetrics_def createSystemLog_def createTrade_def
  broadcastToUser_def callBroker_def isTestMode_def testMsg_def
  sampleWorld_def sampleCollaborators_def initialWorld_def btcTick_def paperKey_def activeSettings_def
  btcPosition_def fixedStrategy_def filledOrder_def hold_signal_def
  newBrokerCalls_def submitOrderCalls_def newBroadcasts_def num_gt_def num_le_def num_sub_def Let_def

section \<open>The confidence gate of the order decision\<close>

text \<open>
  C1. One run of the tick handler evaluates at most one signal and calls \<^verbatim>\<open>submitOrder\<close> at
  most once. It calls it only when the signal it evaluated and broadcast in that run is not
  a hold and has a confidence above 70. For a signal that is a hold or has a confidence of
  at most 70 the order decision leaves the whole state as it is: no call to the broker, not
  even for the account, and so no order request. The strategy factory is any factory; the
  first two parts are about the handler, the other three about its order decision for an
  arbitrary signal.
\<close>

theorem order_gate:
  "length (submitOrderCalls s (handleAlpacaWebsocketMessage c userId marketData s)) \<le> 1
   \<and> (submitOrderCalls s (handleAlpacaWebsocketMessage c userId marketData s) \<noteq> []
        \<longrightarrow> (\<exists>signal. (userId, StrategySignalMsg signal)
                        \<in> set (newBroadcasts s (handleAlpacaWebsocketMessage c userId marketData s))
                 \<and> sig_action signal \<noteq> Hold \<and> num_gt (sig_confidence signal) (Fin 70)))
   \<and> length (submitOrderCalls s (decideOrder c userId settings signal s)) \<le> 1
   \<and> (submitOrderCalls s (decideOrder c userId settings signal s) \<noteq> []
        \<longrightarrow> sig_action signal \<noteq> Hold \<and> num_gt (sig_confidence signal) (Fin 70))
   \<and> (sig_action signal = Hold \<or> num_le (sig_confidence signal) (Fin 70)
        \<longrightarrow> decideOrder c userId settings signal s = s)"
proof -
  have gate: "sig_action signal = Hold \<or> num_le (sig_confidence signal) (Fin 70)
      \<longrightarrow> decideOrder c userId settings signal s = s"
    by (auto intro: decideOrder_closed_gate dest: num_le_not_gt)
  from handler_calls [of s c userId marketData] decideOrder_calls [of s c userId settings signal] gate
  show ?thesis
    unfolding submitOrderCalls_def by (elim disjE exE conjE) auto
qed

theorem order_gate_witness:
  "submitOrderCalls (sampleWorld True True ''any'' ''low'')
     (handleAlpacaWebsocketMessage
        (sampleCollaborators (\<lambda>name. fixedStrategy Buy 85) (\<lambda>r. Inr (filledOrder r))) 1
        (Some (btcTick 105)) (sampleWorld True True ''any'' ''low'')) \<noteq> []
   \<and> (\<exists>signal. (1, StrategySignalMsg signal)
          \<in> set (newBroadcasts (sampleWorld True True ''any'' ''low'')
                   (handleAlpacaWebsocketMessage
                      (sampleCollaborators (\<lambda>name. fixedStrategy Buy 85) (\<lambda>r. Inr (filledOrder r))) 1
                      (Some (btcTick 105)) (sampleWorld True True ''any'' ''low'')))
        \<and> sig_action signal \<noteq> Hold \<and> num_gt (sig_confidence signal) (Fin 70))
   \<and> num_le (Fin 60) (Fin 70)
   \<and> decideOrder (sampleCollaborators (\<lambda>name. fixedStrategy Buy 85) (\<lambda>r. Inr (filledOrder r))) 1
        (activeSettings ''any'' ''low'')
        \<lparr>sig_symbol = ''BTCUSD'', sig_action = Buy, sig_confidence = Fin 60, sig_timestamp = 0\<rparr>
        (sampleWorld True True ''any'' ''low'') = sampleWorld True True ''any'' ''low''"
proof -
  let ?c = "sampleCollaborators (\<lambda>name. fixedStrategy Buy 85) (\<lambda>r. Inr (filledOrder r))"
  let ?s = "sampleWorld True True ''any'' ''low''"
  let ?low = "\<lparr>sig_symbol = ''BTCUSD'', sig_action = Buy, sig_confidence = Fin 60, sig_timestamp = 0\<rparr>"
  have fired: "submitOrderCalls ?s (handleAlpacaWebsocketMessage ?c 1 (Some (btcTick 105)) ?s) \<noteq> []"
    by (simp add: run_defs)
  have low: "num_le (sig_confidence ?low) (Fin 70)"
    by (simp add: num_le_def)
  from order_gate [of ?s ?c 1 "Some (btcTick 105)" "activeSettings ''any'' ''low''" ?low] fired low
  show ?thesis by simp
qed

section \<open>Insufficient history\<close>

text \<open>
  C7. A strategy asked with fewer points than it needs answers with the hold signal of
  confidence 0 and throws nothing: the mean-reversion and the momentum strategy with a
  history shorter than their look-back period or with no history, the oscillator strategy
  with a history shorter than twice its longest period or with no history, the placeholder
  learning strategy with fewer than 2 data points, and \<^verbatim>\<open>generateSignal\<close> of the learned-model
  strategy with fewer than 30 data points. The parameters of the strategies are arbitrary.
\<close>

theorem insufficient_history_holds:
  "(historicalData = None \<or> (\<exists>hist. historicalData = Some hist \<and> length hist < lookbackPeriod)
      \<longrightarrow> MeanReversion_analyze lookbackPeriod standardDeviations trendFilter time symbol data historicalData
            = Inr (hold_signal symbol time)
        \<and> Momentum_analyze lookbackPeriod threshold time symbol data historicalData
            = Inr (hold_signal symbol time))
   \<and> (historicalData = None
        \<or> (\<exists>hist. historicalData = Some hist
              \<and> length hist < max (max fastPeriod slowPeriod) signalPeriod * 2)
      \<longrightarrow> PPO_analyze fastPeriod slowPeriod signalPeriod buyThreshold sellThreshold time symbol data
              historicalData = Inr (hold_signal symbol time))
   \<and> (length data < 2
      \<longrightarrow> ReinforcementLearning_analyze time symbol data historicalData = Inr (hold_signal symbol time))
   \<and> (length data < 30
      \<longrightarrow> fst (generateSignal indicators network time symbol data historicalData rl)
            = hold_signal symbol time)"
  by (auto simp: MeanReversion_analyze_def Momentum_analyze_def PPO_analyze_def
        ReinforcementLearning_analyze_def generateSignal_def)

theorem insufficient_history_holds_witness:
  "MeanReversion_analyze 14 (Fin 2) True 7 ''BTCUSD'' [btcTick 100] (Some [btcTick 100])
     = Inr (hold_signal ''BTCUSD'' 7)
   \<and> Momentum_analyze 14 (Fin (3 / 100)) 7 ''BTCUSD'' [btcTick 100] (Some [btcTick 100])
     = Inr (hold_signal ''BTCUSD'' 7)
   \<and> PPO_analyze 12 26 9 (Fin (2 / 10)) (Fin (- (2 / 10))) 7 ''BTCUSD'' [btcTick 100] (Some [btcTick 100])
     = Inr (hold_signal ''BTCUSD'' 7)
   \<and> ReinforcementLearning_analyze 7 ''BTCUSD'' [btcTick 100] (Some [btcTick 100])
     = Inr (hold_signal ''BTCUSD'' 7)
   \<and> fst (generateSignal (\<lambda>data symbol. Inr []) (\<lambda>state. Inr []) 7 ''BTCUSD'' [btcTick 100]
            (Some [btcTick 100]) (getReinforcementLearningStrategy False)) = hold_signal ''BTCUSD'' 7"
  using insufficient_history_holds [where historicalData = "Some [btcTick 100]" and lookbackPeriod = 14
      and fastPeriod = 12 and slowPeriod = 26 and signalPeriod = 9 and data = "[btcTick 100]"
      and time = 7 and symbol = "''BTCUSD''" and standardDeviations = "Fin 2" and trendFilter = True
      and threshold = "Fin (3 / 100)" and buyThreshold = "Fin (2 / 10)" and sellThreshold = "Fin (- (2 / 10))"
      and indicators = "\<lambda>data symbol. Inr []" and network = "\<lambda>state. Inr []"
      and rl = "getReinforcementLearningStrategy False"]
  by simp

section \<open>A rejected order\<close>

text \<open>
  C2. When \<^verbatim>\<open>submitOrder\<close> throws in a run of the tick handler, the run writes no trade, has
  called \<^verbatim>\<open>submitOrder\<close> exactly once (no retry), and its log lines are the SIGNAL line of the
  evaluation followed by one ERROR line with the message of the error. What the run wrote
  before stays: the cache holds the tick and the positions are as the reconciliation left
  them. A run that writes a trade has called \<^verbatim>\<open>submitOrder\<close> once, and that call returned an
  order.
\<close>

theorem broker_rejection:
  "(SubmitOrder r \<in> set (newBrokerCalls s (handleAlpacaWebsocketMessage c userId (Some tick) s))
      \<and> submitOrder c r = Inl e
     \<longrightarrow> trades (handleAlpacaWebsocketMessage c userId (Some tick) s) = trades s
         \<and> nextId_trades (handleAlpacaWebsocketMessage c userId (Some tick) s) = nextId_trades s
         \<and> submitOrderCalls s (handleAlpacaWebsocketMessage c userId (Some tick) s) = [SubmitOrder r]
         \<and> (\<exists>text. systemLogs (handleAlpacaWebsocketMessage c userId (Some tick) s) =
               DAList.update (nextId_systemLogs s + 1)
                 \<lparr>log_userId = userId, level = ERROR,
                  log_message = ''Order execution failed: '' @ message e, log_timestamp = now c\<rparr>
                 (DAList.update (nextId_systemLogs s)
                    \<lparr>log_userId = userId, level = SIGNAL, log_message = text, log_timestamp = now c\<rparr>
                    (systemLogs s)))
         \<and> marketDataCache (handleAlpacaWebsocketMessage c userId (Some tick) s)
             = DAList.update (md_symbol tick) tick (marketDataCache s)
         \<and> positions (handleAlpacaWebsocketMessage c userId (Some tick) s)
             = positions (upToReconciliation c userId tick s))
   \<and> (trades (handleAlpacaWebsocketMessage c userId (Some tick) s) \<noteq> trades s
        \<or> nextId_trades (handleAlpacaWebsocketMessage c userId (Some tick) s) \<noteq> nextId_trades s
      \<longrightarrow> (\<exists>request order.
             newBrokerCalls s (handleAlpacaWebsocketMessage c userId (Some tick) s)
               = [GetAccount, SubmitOrder request]
             \<and> submitOrder c request = Inr order))"
proof -
  let ?h = "handleAlpacaWebsocketMessage c userId (Some tick) s"
  let ?s3 = "upToReconciliation c userId tick s"
  from handler_shape [of c userId tick s] show ?thesis
  proof (elim disjE exE conjE)
    assume "brokerCalls ?h = brokerCalls s" "trades ?h = trades s" "nextId_trades ?h = nextId_trades s"
    then show ?thesis by (simp add: newBrokerCalls_def)
  next
    fix i b s4 signal
    assume ev: "evaluateStrategy c userId (isTestMode (getApiKeyByUserId s userId)) b tick ?s3
                  = (s4, Some signal)"
      and h: "?h = decideOrder c userId b signal s4"
    note fr = evaluateStrategy_frame [OF ev] and sg = evaluateStrategy_signal [OF ev]
    have calls4: "brokerCalls s4 = brokerCalls s" and trades4: "trades s4 = trades s"
      and next4: "nextId_trades s4 = nextId_trades s"
      using fr by (simp_all add: upToReconciliation_frame)
    have same: "newBrokerCalls s ?h = newBrokerCalls s4 (decideOrder c userId b signal s4)"
      using h calls4 by (simp add: newBrokerCalls_def)
    obtain line where logs4: "systemLogs s4 =
        DAList.update (nextId_systemLogs s)
          \<lparr>log_userId = userId, level = SIGNAL, log_message = line, log_timestamp = now c\<rparr> (systemLogs s)"
      using sg(3) by (auto simp: upToReconciliation_frame)
    have id4: "nextId_systemLogs s4 = nextId_systemLogs s + 1"
      using sg(2) by (simp add: upToReconciliation_frame)
    have first: "trades ?h = trades s \<and> nextId_trades ?h = nextId_trades s
        \<and> submitOrderCalls s ?h = [SubmitOrder r]
        \<and> (\<exists>text. systemLogs ?h =
               DAList.update (nextId_systemLogs s + 1)
                 \<lparr>log_userId = userId, level = ERROR,
                  log_message = ''Order execution failed: '' @ message e, log_timestamp = now c\<rparr>
                 (DAList.update (nextId_systemLogs s)
                    \<lparr>log_userId = userId, level = SIGNAL, log_message = text, log_timestamp = now c\<rparr>
                    (systemLogs s)))
        \<and> marketDataCache ?h = DAList.update (md_symbol tick) tick (marketDataCache s)
        \<and> positions ?h = positions ?s3"
      if sub: "SubmitOrder r \<in> set (newBrokerCalls s ?h)" and rej: "submitOrder c r = Inl e"
    proof -
      have "?h = createSystemLog (now c) userId ERROR (''Order execution failed: '' @ message e)
                   (callBroker (SubmitOrder r) (callBroker GetAccount s4))"
        using decideOrder_rejected [of r s4 c userId b signal e] sub rej same h by simp
      then show ?thesis
        using calls4 trades4 next4 logs4 id4 fr
        by (auto simp: submitOrderCalls_def newBrokerCalls_def upToReconciliation_frame)
    qed
    have second: "\<exists>request order. newBrokerCalls s ?h = [GetAccount, SubmitOrder request]
        \<and> submitOrder c request = Inr order"
      if "trades ?h \<noteq> trades s \<or> nextId_trades ?h \<noteq> nextId_trades s"
      using decideOrder_trade [of c userId b signal s4] that h trades4 next4 same by simp
    from first second show ?thesis by blast
  qed
qed


theorem broker_rejection_witness:
  "SubmitOrder \<lparr>or_symbol = ''BTCUSD'', or_qty = Fin 1, or_side = Buy, or_type = ''market'',
                 or_time_in_force = ''gtc''\<rparr>
     \<in> set (newBrokerCalls (sampleWorld True False ''any'' ''low'')
              (handleAlpacaWebsocketMessage
                 (sampleCollaborators (\<lambda>name. fixedStrategy Buy 85) (\<lambda>r. Inl (Thrown ''insufficient funds'')))
                 1 (Some (btcTick 105)) (sampleWorld True False ''any'' ''low'')))
   \<and> trades (handleAlpacaWebsocketMessage
                 (sampleCollaborators (\<lambda>name. fixedStrategy Buy 85) (\<lambda>r. Inl (Thrown ''insufficient funds'')))
                 1 (Some (btcTick 105)) (sampleWorld True False ''any'' ''low''))
       = trades (sampleWorld True False ''any'' ''low'')
   \<and> (\<exists>line. systemLogs (handleAlpacaWebsocketMessage
                 (sampleCollaborators (\<lambda>name. fixedStrategy Buy 85) (\<lambda>r. Inl (Thrown ''insufficient funds'')))
                 1 (Some (btcTick 105)) (sampleWorld True False ''any'' ''low'')) =
          DAList.update 2
            \<lparr>log_userId = 1, level = ERROR,
             log_message = ''Order execution failed: insufficient funds'', log_timestamp = 1000\<rparr>
            (DAList.update 1
               \<lparr>log_userId = 1, level = SIGNAL, log_message = line, log_timestamp = 1000\<rparr>
               DAList.empty))
   \<and> nextId_trades (handleAlpacaWebsocketMessage
                 (sampleCollaborators (\<lambda>name. fixedStrategy Buy 85) (\<lambda>r. Inr (filledOrder r)))
                 1 (Some (btcTick 105)) (sampleWorld True False ''any'' ''low''))
       \<noteq> nextId_trades (sampleWorld True False ''any'' ''low'')
   \<and> (\<exists>request order.
         newBrokerCalls (sampleWorld True False ''any'' ''low'')
           (handleAlpacaWebsocketMessage
              (sampleCollaborators (\<lambda>name. fixedStrategy Buy 85) (\<lambda>r. Inr (filledOrder r)))
              1 (Some (btcTick 105)) (sampleWorld True False ''any'' ''low''))
           = [GetAccount, SubmitOrder request]
         \<and> submitOrder (sampleCollaborators (\<lambda>name. fixedStrategy Buy 85) (\<lambda>r. Inr (filledOrder r)))
             request = Inr order)"
proof -
  let ?s = "sampleWorld True False ''any'' ''low''"
  let ?rej = "sampleCollaborators (\<lambda>name. fixedStrategy Buy 85) (\<lambda>r. Inl (Thrown ''insufficient funds''))"
  let ?acc = "sampleCollaborators (\<lambda>name. fixedStrategy Buy 85) (\<lambda>r. Inr (filledOrder r))"
  let ?r = "\<lparr>or_symbol = ''BTCUSD'', or_qty = Fin 1, or_side = Buy, or_type = ''market'',
             or_time_in_force = ''gtc''\<rparr>"
  have sub: "SubmitOrder ?r \<in> set (newBrokerCalls ?s
               (handleAlpacaWebsocketMessage ?rej 1 (Some (btcTick 105)) ?s))"
    by (simp add: run_defs)
  have rej: "submitOrder ?rej ?r = Inl (Thrown ''insufficient funds'')"
    by (simp add: sampleCollaborators_def)
  have made: "nextId_trades (handleAlpacaWebsocketMessage ?acc 1 (Some (btcTick 105)) ?s)
               \<noteq> nextId_trades ?s"
    by (simp add: run_defs)
  have ids: "nextId_systemLogs ?s = 1" "systemLogs ?s = DAList.empty" "now ?rej = 1000"
    by (simp_all add: sampleWorld_def initialWorld_def sampleCollaborators_def)
  from broker_rejection [of ?r ?s ?rej 1 "btcTick 105" "Thrown ''insufficient funds''"]
    broker_rejection [of ?r ?s ?acc 1 "btcTick 105" "Thrown ''insufficient funds''"]
    sub rej made ids
  show ?thesis by (simp add: numeral_2_eq_2)
qed

section \<open>No stored API key\<close>

text \<open>
  C9. For a user without a stored API key the order decision does nothing, whatever the
  signal. In the handler: when the bot is active and the evaluation gives a signal that is
  not a hold and has a confidence above 70, the run ends with the state the evaluation
  left: no call to the broker, no trade, and a single new log line, the SIGNAL line of the
  evaluation.
\<close>

theorem missing_key_skips_order:
  "(getApiKeyByUserId s userId = None \<longrightarrow> decideOrder c userId settings signal s = s)
   \<and> (getApiKeyByUserId s userId = None
        \<and> getBotSettingsByUserId s userId = Some (settingsId, settings) \<and> isActive settings
        \<and> evaluateStrategy c userId False settings tick (upToReconciliation c userId tick s)
            = (s4, Some signal)
        \<and> sig_action signal \<noteq> Hold \<and> num_gt (sig_confidence signal) (Fin 70)
      \<longrightarrow> handleAlpacaWebsocketMessage c userId (Some tick) s = s4
          \<and> newBrokerCalls s s4 = []
          \<and> trades s4 = trades s \<and> nextId_trades s4 = nextId_trades s
          \<and> nextId_systemLogs s4 = nextId_systemLogs s + 1
          \<and> (\<exists>line. systemLogs s4 =
                DAList.update (nextId_systemLogs s)
                  \<lparr>log_userId = userId, level = SIGNAL, log_message = line, log_timestamp = now c\<rparr>
                  (systemLogs s)))"
proof -
  have "handleAlpacaWebsocketMessage c userId (Some tick) s = s4
          \<and> newBrokerCalls s s4 = []
          \<and> trades s4 = trades s \<and> nextId_trades s4 = nextId_trades s
          \<and> nextId_systemLogs s4 = nextId_systemLogs s + 1
          \<and> (\<exists>line. systemLogs s4 =
                DAList.update (nextId_systemLogs s)
                  \<lparr>log_userId = userId, level = SIGNAL, log_message = line, log_timestamp = now c\<rparr>
                  (systemLogs s))"
    if nokey: "getApiKeyByUserId s userId = None"
      and settings: "getBotSettingsByUserId s userId = Some (settingsId, settings)" "isActive settings"
      and ev: "evaluateStrategy c userId False settings tick (upToReconciliation c userId tick s)
                 = (s4, Some signal)"
  proof -
    note fr = evaluateStrategy_frame [OF ev] and sg = evaluateStrategy_signal [OF ev]
    have "getApiKeyByUserId s4 userId = None"
      using nokey fr(5) by (simp add: getApiKeyByUserId_def upToReconciliation_frame)
    then have "decideOrder c userId settings signal s4 = s4" by (rule decideOrder_no_key)
    then have "handleAlpacaWebsocketMessage c userId (Some tick) s = s4"
      using nokey settings ev by (simp add: handler_unfold isTestMode_def)
    then show ?thesis
      using fr sg by (auto simp: newBrokerCalls_def upToReconciliation_frame)
  qed
  then show ?thesis by (auto simp: decideOrder_no_key)
qed

theorem missing_key_skips_order_witness:
  "getApiKeyByUserId (sampleWorld False False ''any'' ''low'') 1 = None
   \<and> (\<exists>s4 signal.
         evaluateStrategy (sampleCollaborators (\<lambda>name. fixedStrategy Buy 85) (\<lambda>r. Inr (filledOrder r))) 1
           False (activeSettings ''any'' ''low'') (btcTick 105)
           (upToReconciliation (sampleCollaborators (\<lambda>name. fixedStrategy Buy 85) (\<lambda>r. Inr (filledOrder r)))
              1 (btcTick 105) (sampleWorld False False ''any'' ''low''))
           = (s4, Some signal)
         \<and> sig_action signal \<noteq> Hold \<and> num_gt (sig_confidence signal) (Fin 70)
         \<and> handleAlpacaWebsocketMessage
             (sampleCollaborators (\<lambda>name. fixedStrategy Buy 85) (\<lambda>r. Inr (filledOrder r))) 1
             (Some (btcTick 105)) (sampleWorld False False ''any'' ''low'') = s4
         \<and> newBrokerCalls (sampleWorld False False ''any'' ''low'') s4 = []
         \<and> trades s4 = trades (sampleWorld False False ''any'' ''low'')
         \<and> nextId_systemLogs s4 = 2)
   \<and> decideOrder (sampleCollaborators (\<lambda>name. fixedStrategy Buy 85) (\<lambda>r. Inr (filledOrder r))) 1
        (activeSettings ''any'' ''low'')
        \<lparr>sig_symbol = ''BTCUSD'', sig_action = Buy, sig_confidence = Fin 85, sig_timestamp = 0\<rparr>
        (sampleWorld False False ''any'' ''low'') = sampleWorld False False ''any'' ''low''"
proof -
  let ?s = "sampleWorld False False ''any'' ''low''"
  let ?c = "sampleCollaborators (\<lambda>name. fixedStrategy Buy 85) (\<lambda>r. Inr (filledOrder r))"
  let ?b = "activeSettings ''any'' ''low''"
  let ?sig = "\<lparr>sig_symbol = ''BTCUSD'', sig_action = Buy, sig_confidence = Fin 85, sig_timestamp = 1000\<rparr>"
  let ?other = "\<lparr>sig_symbol = ''BTCUSD'', sig_action = Buy, sig_confidence = Fin 85, sig_timestamp = 0\<rparr>"
  obtain s4 where s4: "s4 = fst (evaluateStrategy ?c 1 False ?b (btcTick 105)
                                  (upToReconciliation ?c 1 (btcTick 105) ?s))"
    by simp
  have nokey: "getApiKeyByUserId ?s 1 = None"
    by (simp add: run_defs)
  have settings: "getBotSettingsByUserId ?s 1 = Some (1, ?b)" "isActive ?b"
    by (simp_all add: run_defs)
  have "snd (evaluateStrategy ?c 1 False ?b (btcTick 105) (upToReconciliation ?c 1 (btcTick 105) ?s))
          = Some ?sig"
    by (simp add: run_defs upToReconciliation_def)
  with s4 have ev: "evaluateStrategy ?c 1 False ?b (btcTick 105) (upToReconciliation ?c 1 (btcTick 105) ?s)
              = (s4, Some ?sig)"
    by (simp add: prod_eq_iff)
  have gate: "sig_action ?sig \<noteq> Hold" "num_gt (sig_confidence ?sig) (Fin 70)"
    by (simp_all add: num_gt_def)
  have ids: "nextId_systemLogs ?s = 1"
    by (simp add: sampleWorld_def initialWorld_def)
  from missing_key_skips_order [of ?s 1 ?c ?b ?sig 1 "btcTick 105" s4]
    missing_key_skips_order [of ?s 1 ?c ?b ?other 1 "btcTick 105" s4]
    nokey settings ev gate ids
  show ?thesis by (simp add: numeral_2_eq_2)
qed

section \<open>The history window of the live pipeline\<close>

subsection \<open>The strategies of the repository on a single tick\<close>


lemma createStrategy_one_tick:
  "name \<noteq> ''reinforcement'' \<Longrightarrow>
     analyze (createStrategy name) time symbol [tick] (Some [tick]) = Inr (hold_signal symbol time)"
  by (simp add: createStrategy_def MeanReversionStrategy_def MomentumStrategy_def PPOStrategy_def
      MeanReversion_analyze_def Momentum_analyze_def PPO_analyze_def)

lemma window_after_tick:
  "historicalWindow (marketDataCache (upToReconciliation c u tick s)) (md_symbol tick) = [tick]"
  by (simp add: upToReconciliation_frame historicalWindow_update)

lemma repository_evaluation_holds:
  assumes "strategyFactory c = createStrategy"
    and "evaluateStrategy c u test b tick (upToReconciliation c u tick s) = (s4, Some signal)"
  shows "signal = hold_signal (md_symbol tick) (now c)"
proof (cases "strategy b = ''reinforcement''")
  case True
  then show ?thesis using assms(2) by (rule evaluateStrategy_reinforcement_holds)
next
  case False
  then show ?thesis
    using assms
    by (auto simp: evaluateStrategy_rule_based window_after_tick createStrategy_one_tick)
qed

text \<open>With the factory of the repository no run of the tick handler reaches the broker.\<close>

lemma repository_never_orders:
  assumes "strategyFactory c = createStrategy"
  shows "brokerCalls (handleAlpacaWebsocketMessage c u m s) = brokerCalls s
    \<and> trades (handleAlpacaWebsocketMessage c u m s) = trades s
    \<and> nextId_trades (handleAlpacaWebsocketMessage c u m s) = nextId_trades s"
proof (cases m)
  case None
  then show ?thesis by (simp add: handleAlpacaWebsocketMessage_def)
next
  case (Some tick)
  from handler_shape [of c u tick s] show ?thesis
  proof (elim disjE exE conjE)
    fix i b s4 signal
    assume ev: "evaluateStrategy c u (isTestMode (getApiKeyByUserId s u)) b tick
                  (upToReconciliation c u tick s) = (s4, Some signal)"
      and h: "handleAlpacaWebsocketMessage c u (Some tick) s = decideOrder c u b signal s4"
    have "signal = hold_signal (md_symbol tick) (now c)"
      using assms ev by (rule repository_evaluation_holds)
    then have "decideOrder c u b signal s4 = s4"
      by (simp add: decideOrder_closed_gate hold_signal_def)
    with h Some evaluateStrategy_frame [OF ev] show ?thesis
      by (simp add: upToReconciliation_frame)
  qed (simp add: Some)
qed


section \<open>Ticks without a position\<close>

text \<open>
  C5. When the user has no position for the symbol of the tick, the table of positions
  after the run of the handler is the table before it, also after its first three steps
  alone, and none of the broadcasts of the run is a position update.
\<close>

theorem no_position_no_reconciliation:
  "find (\<lambda>(ident, p). pos_symbol p = md_symbol tick) (getPositionsByUserId s userId) = None
   \<longrightarrow> positions (upToReconciliation c userId tick s) = positions s
       \<and> positions (handleAlpacaWebsocketMessage c userId (Some tick) s) = positions s
       \<and> list_all (\<lambda>(v, m). \<not> isPositionUpdate m)
            (newBroadcasts s (handleAlpacaWebsocketMessage c userId (Some tick) s))"
proof
  let ?h = "handleAlpacaWebsocketMessage c userId (Some tick) s"
  let ?s3 = "upToReconciliation c userId tick s"
  assume none: "find (\<lambda>(ident, p). pos_symbol p = md_symbol tick) (getPositionsByUserId s userId) = None"
  then have pos: "positions ?s3 = positions s"
    by (simp add: upToReconciliation_positions)
  have b3: "broadcasts ?s3 = broadcasts s @ [(userId, MarketDataMsg tick)]"
    using upToReconciliation_broadcasts [of c userId tick s] none by auto
  have "list_all (\<lambda>(v, m). \<not> isPositionUpdate m) (newBroadcasts s ?h)"
  proof (cases "getBotSettingsByUserId s userId")
    case None
    then show ?thesis using b3 by (simp add: handler_unfold newBroadcasts_def)
  next
    case (Some row)
    obtain i b where row: "row = (i, b)" by (cases row)
    obtain s4 res where ev: "evaluateStrategy c userId (isTestMode (getApiKeyByUserId s userId)) b tick ?s3
        = (s4, res)"
      by (cases "evaluateStrategy c userId (isTestMode (getApiKeyByUserId s userId)) b tick ?s3")
    show ?thesis
    proof (cases "isActive b")
      case False
      with Some row b3 show ?thesis by (simp add: handler_unfold newBroadcasts_def)
    next
      case True
      show ?thesis
      proof (cases res)
        case None
        then have "?h = s4" using Some row True ev by (simp add: handler_unfold)
        then show ?thesis
          using evaluateStrategy_none(1) [of c userId _ b tick ?s3 s4] ev None b3
          by (simp add: newBroadcasts_def)
      next
        case (Some signal)
        then have h: "?h = decideOrder c userId b signal s4"
          using \<open>getBotSettingsByUserId s userId = Some row\<close> row True ev by (simp add: handler_unfold)
        have b4: "broadcasts s4 = broadcasts s @ [(userId, MarketDataMsg tick), (userId, StrategySignalMsg signal)]"
          using evaluateStrategy_signal(1) [of c userId _ b tick ?s3 s4 signal] ev Some b3 by simp
        obtain post where "broadcasts (decideOrder c userId b signal s4) = broadcasts s4 @ post"
          "list_all (\<lambda>(v, m). \<not> isPositionUpdate m) post"
          using decideOrder_broadcasts [of c userId b signal s4] by auto
        with h b4 show ?thesis by (simp add: newBroadcasts_def)
      qed
    qed
  qed
  with pos show "positions ?s3 = positions s \<and> positions ?h = positions s
       \<and> list_all (\<lambda>(v, m). \<not> isPositionUpdate m) (newBroadcasts s ?h)"
    by (simp add: handler_positions)
qed

theorem no_position_no_reconciliation_witness:
  "find (\<lambda>(ident, p). pos_symbol p = md_symbol (btcTick 105))
     (getPositionsByUserId (sampleWorld True False ''any'' ''low'') 1) = None
   \<and> positions (handleAlpacaWebsocketMessage
                   (sampleCollaborators (\<lambda>name. fixedStrategy Buy 85) (\<lambda>r. Inr (filledOrder r))) 1
                   (Some (btcTick 105)) (sampleWorld True False ''any'' ''low''))
       = positions (sampleWorld True False ''any'' ''low'')
   \<and> list_all (\<lambda>(v, m). \<not> isPositionUpdate m)
        (newBroadcasts (sampleWorld True False ''any'' ''low'')
           (handleAlpacaWebsocketMessage
              (sampleCollaborators (\<lambda>name. fixedStrategy Buy 85) (\<lambda>r. Inr (filledOrder r))) 1
              (Some (btcTick 105)) (sampleWorld True False ''any'' ''low'')))"
proof -
  let ?c = "sampleCollaborators (\<lambda>name. fixedStrategy Buy 85) (\<lambda>r. Inr (filledOrder r))"
  let ?s = "sampleWorld True False ''any'' ''low''"
  have none: "find (\<lambda>(ident, p). pos_symbol p = md_symbol (btcTick 105)) (getPositionsByUserId ?s 1) = None"
    by (simp add: run_defs)
  from no_position_no_reconciliation [of "btcTick 105" ?s 1 ?c] none
  show ?thesis by simp
qed


section \<open>Reconciliation of a position\<close>

text \<open>
  C4. When the user has a position for the symbol of the tick, the row stored under its id
  after the run of the handler has the quantity and the entry price it had, the price of
  the tick as its current price, and
  market value = quantity \<times> current price,
  unrealized P/L = quantity \<times> (current price - entry price),
  unrealized P/L in percent = ((current price - entry price) / entry price) \<times> 100,
  in the arithmetic of JavaScript numbers. For the BTCUSD position of quantity 1 and entry
  price 100 and the ticks 100, 105, 95, whatever the collaborators of the three runs do, the
  stored unrealized P/L is 0, 5, -5, and so is the percentage.
\<close>

theorem reconciled_position_values:
  "(find (\<lambda>(ident, p). pos_symbol p = md_symbol tick) (getPositionsByUserId s userId) = Some (ident, p)
     \<longrightarrow> (\<exists>p'. DAList.lookup (positions (handleAlpacaWebsocketMessage c userId (Some tick) s)) ident = Some p'
            \<and> pos_symbol p' = pos_symbol p \<and> qty p' = qty p \<and> entryPrice p' = entryPrice p
            \<and> currentPrice p' = md_price tick
            \<and> marketValue p' = num_mul (qty p') (currentPrice p')
            \<and> unrealizedPl p' = num_mul (qty p') (num_sub (currentPrice p') (entryPrice p'))
            \<and> unrealizedPlPerc p' =
                num_mul (num_div (num_sub (currentPrice p') (entryPrice p')) (entryPrice p')) (Fin 100)))
   \<and> (let s1 = handleAlpacaWebsocketMessage c1 1 (Some (btcTick 100)) (sampleWorld withKey True name frequency);
           s2 = handleAlpacaWebsocketMessage c2 1 (Some (btcTick 105)) s1;
           s3 = handleAlpacaWebsocketMessage c3 1 (Some (btcTick 95)) s2
       in map (\<lambda>s. map_option unrealizedPl (DAList.lookup (positions s) 1)) [s1, s2, s3]
            = [Some (Fin 0), Some (Fin 5), Some (Fin (- 5))]
        \<and> map (\<lambda>s. map_option unrealizedPlPerc (DAList.lookup (positions s) 1)) [s1, s2, s3]
            = [Some (Fin 0), Some (Fin 5), Some (Fin (- 5))]
        \<and> map (\<lambda>s. map_option marketValue (DAList.lookup (positions s) 1)) [s1, s2, s3]
            = [Some (Fin 100), Some (Fin 105), Some (Fin 95)])"
proof -
  have table: "positions (handleAlpacaWebsocketMessage k u (Some t) w) =
      (case find (\<lambda>(ident, p). pos_symbol p = md_symbol t)
              (filter (\<lambda>(ident, position). pos_userId position = u) (entries (positions w))) of
         None \<Rightarrow> positions w
       | Some (ident, p) \<Rightarrow> DAList.update ident (reconciled (now k) t p) (positions w))" for k u t w
    by (simp add: handler_positions upToReconciliation_positions getPositionsByUserId_def)
  have general: "\<exists>p'. DAList.lookup (positions (handleAlpacaWebsocketMessage c userId (Some tick) s)) ident = Some p'
            \<and> pos_symbol p' = pos_symbol p \<and> qty p' = qty p \<and> entryPrice p' = entryPrice p
            \<and> currentPrice p' = md_price tick
            \<and> marketValue p' = num_mul (qty p') (currentPrice p')
            \<and> unrealizedPl p' = num_mul (qty p') (num_sub (currentPrice p') (entryPrice p'))
            \<and> unrealizedPlPerc p' =
                num_mul (num_div (num_sub (currentPrice p') (entryPrice p')) (entryPrice p')) (Fin 100)"
    if "find (\<lambda>(ident, p). pos_symbol p = md_symbol tick) (getPositionsByUserId s userId) = Some (ident, p)"
    using that by (simp add: table getPositionsByUserId_def reconciled_def)
  have start: "positions (sampleWorld withKey True name frequency) = DAList.update 1 btcPosition DAList.empty"
    by (simp add: sampleWorld_def initialWorld_def)
  have sequence: "let s1 = handleAlpacaWebsocketMessage c1 1 (Some (btcTick 100)) (sampleWorld withKey True name frequency);
           s2 = handleAlpacaWebsocketMessage c2 1 (Some (btcTick 105)) s1;
           s3 = handleAlpacaWebsocketMessage c3 1 (Some (btcTick 95)) s2
       in map (\<lambda>s. map_option unrealizedPl (DAList.lookup (positions s) 1)) [s1, s2, s3]
            = [Some (Fin 0), Some (Fin 5), Some (Fin (- 5))]
        \<and> map (\<lambda>s. map_option unrealizedPlPerc (DAList.lookup (positions s) 1)) [s1, s2, s3]
            = [Some (Fin 0), Some (Fin 5), Some (Fin (- 5))]
        \<and> map (\<lambda>s. map_option marketValue (DAList.lookup (positions s) 1)) [s1, s2, s3]
            = [Some (Fin 100), Some (Fin 105), Some (Fin 95)]"
    by (simp add: Let_def table start entries_def update.rep_eq empty.rep_eq lookup.rep_eq
        btcPosition_def btcTick_def reconciled_def num_sub_def)
  from general sequence show ?thesis by blast
qed

theorem reconciled_position_values_witness:
  "find (\<lambda>(ident, p). pos_symbol p = md_symbol (btcTick 105))
     (getPositionsByUserId (sampleWorld True True ''any'' ''low'') 1) = Some (1, btcPosition)
   \<and> (\<exists>p'. DAList.lookup
              (positions (handleAlpacaWebsocketMessage
                            (sampleCollaborators (\<lambda>name. fixedStrategy Buy 85) (\<lambda>r. Inr (filledOrder r))) 1
                            (Some (btcTick 105)) (sampleWorld True True ''any'' ''low''))) 1 = Some p'
          \<and> qty p' = Fin 1 \<and> entryPrice p' = Fin 100 \<and> currentPrice p' = Fin 105
          \<and> marketValue p' = num_mul (qty p') (currentPrice p')
          \<and> unrealizedPl p' = num_mul (qty p') (num_sub (currentPrice p') (entryPrice p'))
          \<and> unrealizedPlPerc p' =
              num_mul (num_div (num_sub (currentPrice p') (entryPrice p')) (entryPrice p')) (Fin 100))"
proof -
  let ?c = "sampleCollaborators (\<lambda>name. fixedStrategy Buy 85) (\<lambda>r. Inr (filledOrder r))"
  let ?s = "sampleWorld True True ''any'' ''low''"
  have found: "find (\<lambda>(ident, p). pos_symbol p = md_symbol (btcTick 105)) (getPositionsByUserId ?s 1)
                 = Some (1, btcPosition)"
    by (simp add: run_defs)
  have row: "qty btcPosition = Fin 1" "entryPrice btcPosition = Fin 100" "md_price (btcTick 105) = Fin 105"
    by (simp_all add: btcPosition_def btcTick_def)
  from reconciled_position_values [of "btcTick 105" ?s 1 1 btcPosition ?c, THEN conjunct1] found row
  show ?thesis by auto
qed

section \<open>The scheduler handle of a user\<close>

subsection \<open>Timers and their registry\<close>

lemma entries_update: "entries (DAList.update k v m) = AList.update k v (entries m)"
  by (simp add: entries_def update.rep_eq)

lemma entries_delete: "entries (DAList.delete k m) = AList.delete k (entries m)"
  by (simp add: entries_def delete.rep_eq)

lemma entries_distinct: "distinct (map fst (entries m))"
  by (simp add: entries_def)

lemma lookup_entries: "DAList.lookup m k = map_of (entries m) k"
  by (simp add: entries_def lookup.rep_eq)

lemma distinct_one_value:
  assumes "distinct ys" and "set ys \<subseteq> {h}"
  shows "length ys \<le> 1"
proof -
  have "length ys = card (set ys)" using assms(1) by (simp add: distinct_card)
  also have "\<dots> \<le> card {h}" using assms(2) by (intro card_mono) auto
  finally show ?thesis by simp
qed

lemma botsRegistered_iff:
  "botsRegistered s \<longleftrightarrow>
     (\<forall>h t. (h, t) \<in> set (entries (timers s)) \<longrightarrow> DAList.lookup (activeBots s) (tm_userId t) = Some h)"
  by (auto simp: botsRegistered_def list_all_iff)

lemma set_liveHandles:
  "set (liveHandles s u) = {h. \<exists>t. (h, t) \<in> set (entries (timers s)) \<and> tm_userId t = u}"
  by (auto simp: liveHandles_def image_iff)

lemma distinct_liveHandles: "distinct (liveHandles s u)"
  unfolding liveHandles_def by (rule distinct_map_filter) (rule entries_distinct)

lemma registered_at_most_one:
  assumes "botsRegistered s"
  shows "length (liveHandles s u) \<le> 1"
proof (cases "DAList.lookup (activeBots s) u")
  case None
  then have "set (liveHandles s u) = {}"
    using assms by (auto simp: set_liveHandles botsRegistered_iff)
  then show ?thesis by simp
next
  case (Some h)
  then have "set (liveHandles s u) \<subseteq> {h}"
    using assms by (auto simp: set_liveHandles botsRegistered_iff)
  with distinct_liveHandles show ?thesis by (rule distinct_one_value)
qed

lemma unregistered_no_handle:
  assumes "botsRegistered s" and "DAList.lookup (activeBots s) u = None"
  shows "liveHandles s u = []"
proof -
  have "set (liveHandles s u) = {}"
    using assms by (auto simp: set_liveHandles botsRegistered_iff)
  then show ?thesis by simp
qed

lemma stopTradingBot_frame [simp]:
  "apiKeys (stopTradingBot u s) = apiKeys s"
  "botSettings (stopTradingBot u s) = botSettings s"
  "nextTimer (stopTradingBot u s) = nextTimer s"
  "broadcasts (stopTradingBot u s) = broadcasts s"
  "systemLogs (stopTradingBot u s) = systemLogs s"
  "nextId_systemLogs (stopTradingBot u s) = nextId_systemLogs s"
  "DAList.lookup (activeBots (stopTradingBot u s)) u = None"
  by (simp_all add: stopTradingBot_def clearInterval_def split: option.splits)

lemma set_AList_delete: "set (AList.delete k xs) = {(a, b). (a, b) \<in> set xs \<and> a \<noteq> k}"
  by (induction xs) auto

lemma stopTradingBot_registered:
  assumes "botsRegistered s"
  shows "botsRegistered (stopTradingBot u s)"
proof (cases "DAList.lookup (activeBots s) u")
  case None
  with assms show ?thesis by (simp add: stopTradingBot_def)
next
  case (Some h)
  have "DAList.lookup (DAList.delete u (activeBots s)) (tm_userId t) = Some h'"
    if "(h', t) \<in> set (entries (timers s))" "h' \<noteq> h" for h' t
  proof -
    have reg: "DAList.lookup (activeBots s) (tm_userId t) = Some h'"
      using assms that(1) by (simp add: botsRegistered_iff)
    with Some that(2) have "tm_userId t \<noteq> u" by auto
    with reg show ?thesis by simp
  qed
  with Some show ?thesis
    by (auto simp: botsRegistered_iff stopTradingBot_def clearInterval_def entries_delete set_AList_delete)
qed

lemma stopTradingBot_no_handle:
  assumes "botsRegistered s"
  shows "liveHandles (stopTradingBot u s) u = []"
  using stopTradingBot_registered [OF assms] by (intro unregistered_no_handle) simp_all

lemma set_AList_update:
  "set (AList.update k v xs) \<subseteq> insert (k, v) (set xs)"
  by (induction xs) auto

text \<open>Installing a timer for a user who has none, and registering it.\<close>

lemma install_registered:
  assumes "botsRegistered s" and "liveHandles s u = []"
  shows "botsRegistered (s\<lparr>timers := DAList.update h \<lparr>tm_userId = u, tm_period = p\<rparr> (timers s),
                           nextTimer := n, activeBots := DAList.update u h (activeBots s)\<rparr>)"
proof -
  have "DAList.lookup (DAList.update u h (activeBots s)) (tm_userId t) = Some h'"
    if "(h', t) \<in> set (entries (timers s))" for h' t
  proof -
    have "tm_userId t \<noteq> u"
      using assms(2) that set_liveHandles [of s u] by auto
    moreover have "DAList.lookup (activeBots s) (tm_userId t) = Some h'"
      using assms(1) that by (simp add: botsRegistered_iff)
    ultimately show ?thesis by simp
  qed
  then show ?thesis
    using set_AList_update [of h "\<lparr>tm_userId = u, tm_period = p\<rparr>" "entries (timers s)"]
    by (auto simp: botsRegistered_iff entries_update)
qed

lemma install_handle:
  assumes "liveHandles s u = []"
  shows "liveHandles (s\<lparr>timers := DAList.update h \<lparr>tm_userId = u, tm_period = p\<rparr> (timers s),
                          nextTimer := n, activeBots := a\<rparr>) u = [h]"
proof -
  have none: "filter (\<lambda>(handle, t). tm_userId t = u) (entries (timers s)) = []"
    using assms by (simp add: liveHandles_def)
  have "filter (\<lambda>(handle, t). tm_userId t = u) (AList.update h \<lparr>tm_userId = u, tm_period = p\<rparr> xs)
          = [(h, \<lparr>tm_userId = u, tm_period = p\<rparr>)]"
    if "filter (\<lambda>(handle, t). tm_userId t = u) xs = []" for xs
    using that by (induction xs) (auto split: if_splits)
  from this [OF none] show ?thesis
    by (simp add: liveHandles_def entries_update)
qed

lemma botsRegistered_cong:
  "timers s' = timers s \<Longrightarrow> activeBots s' = activeBots s \<Longrightarrow> botsRegistered s' = botsRegistered s"
  by (simp add: botsRegistered_def)

lemma liveHandles_cong: "timers s' = timers s \<Longrightarrow> liveHandles s' u = liveHandles s u"
  by (simp add: liveHandles_def)

lemma initReinforcement_frame [simp]:
  "timers (initReinforcement c u test s) = timers s"
  "activeBots (initReinforcement c u test s) = activeBots s"
  "nextTimer (initReinforcement c u test s) = nextTimer s"
  "apiKeys (initReinforcement c u test s) = apiKeys s"
  "botSettings (initReinforcement c u test s) = botSettings s"
  "broadcasts (initReinforcement c u test s) = broadcasts s"
  by (simp_all add: initReinforcement_def Let_def split: option.splits)

text \<open>
  \<^verbatim>\<open>startTradingBot\<close> stops, and then either returns or goes on to install one timer with
  the period of the frequency setting and to register it for the user.
\<close>

lemma startTradingBot_shape:
  "(startTradingBot c u s = stopTradingBot u s
      \<and> (getApiKeyByUserId s u = None \<or> getBotSettingsByUserId s u = None
          \<or> (\<exists>i b. getBotSettingsByUserId s u = Some (i, b) \<and> \<not> isActive b)))
   \<or> (\<exists>keyRow i b s3.
         getApiKeyByUserId s u = Some keyRow \<and> getBotSettingsByUserId s u = Some (i, b) \<and> isActive b
         \<and> timers s3 = timers (stopTradingBot u s) \<and> activeBots s3 = activeBots (stopTradingBot u s)
         \<and> nextTimer s3 = nextTimer s \<and> apiKeys s3 = apiKeys s \<and> botSettings s3 = botSettings s
         \<and> broadcasts s3 = broadcasts s @ [(u, BotStatus True (Some (strategy b)))]
         \<and> startTradingBot c u s =
             s3\<lparr>timers := DAList.update (nextTimer s)
                              \<lparr>tm_userId = u, tm_period = updateInterval (tradingFrequency b)\<rparr> (timers s3),
                nextTimer := nextTimer s + 1,
                activeBots := DAList.update u (nextTimer s) (activeBots s3)\<rparr>)"
proof -
  have k: "getApiKeyByUserId (stopTradingBot u s) u = getApiKeyByUserId s u"
    by (simp add: getApiKeyByUserId_def)
  have b: "getBotSettingsByUserId (stopTradingBot u s) u = getBotSettingsByUserId s u"
    by (simp add: getBotSettingsByUserId_def)
  show ?thesis
  proof (cases "getApiKeyByUserId s u")
    case None
    then show ?thesis by (simp add: startTradingBot_def Let_def k b)
  next
    case (Some keyRow)
    show ?thesis
    proof (cases "getBotSettingsByUserId s u")
      case None
      with Some show ?thesis by (simp add: startTradingBot_def Let_def k b split: prod.splits)
    next
      case row: (Some settingsRow)
      obtain i st where st: "settingsRow = (i, st)" by (cases settingsRow)
      show ?thesis
      proof (cases "isActive st")
        case False
        with Some row st show ?thesis
          by (simp add: startTradingBot_def Let_def k b split: prod.splits)
      next
        case True
        define s1 where "s1 = (if strategy st = ''reinforcement''
            then initReinforcement c u (isTestMode (Some keyRow)) (stopTradingBot u s)
            else stopTradingBot u s)"
        define s3 where "s3 = broadcastToUser u (BotStatus True (Some (strategy st)))
            (createSystemLog (now c) u INFO
               (''Bot started with '' @ strategy st @ '' strategy'' @ testMsg (isTestMode (Some keyRow))) s1)"
        have "startTradingBot c u s =
             s3\<lparr>timers := DAList.update (nextTimer s)
                              \<lparr>tm_userId = u, tm_period = updateInterval (tradingFrequency st)\<rparr> (timers s3),
                nextTimer := nextTimer s + 1,
                activeBots := DAList.update u (nextTimer s) (activeBots s3)\<rparr>"
          using Some row st True
          by (simp add: startTradingBot_def Let_def k b setInterval_def s3_def s1_def split: prod.splits)
        moreover have "timers s3 = timers (stopTradingBot u s)" "activeBots s3 = activeBots (stopTradingBot u s)"
          "nextTimer s3 = nextTimer s" "apiKeys s3 = apiKeys s" "botSettings s3 = botSettings s"
          "broadcasts s3 = broadcasts s @ [(u, BotStatus True (Some (strategy st)))]"
          by (simp_all add: s3_def s1_def)
        ultimately show ?thesis
          using Some row st True by blast
      qed
    qed
  qed
qed

lemma startTradingBot_tables [simp]:
  "apiKeys (startTradingBot c u s) = apiKeys s" "botSettings (startTradingBot c u s) = botSettings s"
  using startTradingBot_shape [of c u s] by auto

lemma startTradingBot_registered:
  assumes "botsRegistered s"
  shows "botsRegistered (startTradingBot c u s)"
  using startTradingBot_shape [of c u s]
proof (elim disjE [of "_ \<and> _"] exE conjE)
  assume "startTradingBot c u s = stopTradingBot u s"
    and "getApiKeyByUserId s u = None \<or> getBotSettingsByUserId s u = None
          \<or> (\<exists>i b. getBotSettingsByUserId s u = Some (i, b) \<and> \<not> isActive b)"
  then show ?thesis using assms by (simp add: stopTradingBot_registered)
next
  fix keyRow i b s3
  assume t: "timers s3 = timers (stopTradingBot u s)" and a: "activeBots s3 = activeBots (stopTradingBot u s)"
    and eq: "startTradingBot c u s =
             s3\<lparr>timers := DAList.update (nextTimer s)
                              \<lparr>tm_userId = u, tm_period = updateInterval (tradingFrequency b)\<rparr> (timers s3),
                nextTimer := nextTimer s + 1,
                activeBots := DAList.update u (nextTimer s) (activeBots s3)\<rparr>"
  have "botsRegistered s3"
    using botsRegistered_cong [OF t a] stopTradingBot_registered [OF assms] by simp
  moreover have "liveHandles s3 u = []"
    using liveHandles_cong [OF t] stopTradingBot_no_handle [OF assms] by simp
  ultimately show ?thesis
    unfolding eq by (rule install_registered)
qed

lemma startTradingBot_started:
  assumes "botsRegistered s" and "getApiKeyByUserId s u = Some keyRow"
    and "getBotSettingsByUserId s u = Some (i, b)" and "isActive b"
  shows "liveHandles (startTradingBot c u s) u = [nextTimer s]"
    and "DAList.lookup (activeBots (startTradingBot c u s)) u = Some (nextTimer s)"
    and "DAList.lookup (timers (startTradingBot c u s)) (nextTimer s)
           = Some \<lparr>tm_userId = u, tm_period = updateInterval (tradingFrequency b)\<rparr>"
    and "nextTimer (startTradingBot c u s) = nextTimer s + 1"
proof -
  from startTradingBot_shape [of c u s] assms(2-4)
  obtain s3 where t: "timers s3 = timers (stopTradingBot u s)"
    and eq: "startTradingBot c u s =
             s3\<lparr>timers := DAList.update (nextTimer s)
                              \<lparr>tm_userId = u, tm_period = updateInterval (tradingFrequency b)\<rparr> (timers s3),
                nextTimer := nextTimer s + 1,
                activeBots := DAList.update u (nextTimer s) (activeBots s3)\<rparr>"
    by auto
  have "liveHandles s3 u = []"
    using liveHandles_cong [OF t] stopTradingBot_no_handle [OF assms(1)] by simp
  then show "liveHandles (startTradingBot c u s) u = [nextTimer s]"
    unfolding eq by (rule install_handle)
  show "DAList.lookup (activeBots (startTradingBot c u s)) u = Some (nextTimer s)"
    "DAList.lookup (timers (startTradingBot c u s)) (nextTimer s)
           = Some \<lparr>tm_userId = u, tm_period = updateInterval (tradingFrequency b)\<rparr>"
    "nextTimer (startTradingBot c u s) = nextTimer s + 1"
    unfolding eq by simp_all
qed

lemma startTradingBot_not_started:
  assumes "botsRegistered s"
    and "getApiKeyByUserId s u = None \<or> getBotSettingsByUserId s u = None
         \<or> (\<exists>i b. getBotSettingsByUserId s u = Some (i, b) \<and> \<not> isActive b)"
  shows "liveHandles (startTradingBot c u s) u = []"
proof -
  have "startTradingBot c u s = stopTradingBot u s"
    using startTradingBot_shape [of c u s] assms(2) by auto
  then show ?thesis using assms(1) by (simp add: stopTradingBot_no_handle)
qed

subsection \<open>Messages of a connection\<close>

lemma find_update_row:
  assumes "distinct (map fst xs)" and "find P xs = Some (k, v)" and "P (k, v')"
  shows "find P (AList.update k v' xs) = Some (k, v')"
  using assms
proof (induction xs)
  case Nil
  then show ?case by simp
next
  case (Cons x xs)
  obtain a b where x: "x = (a, b)" by (cases x)
  show ?case
  proof (cases "P (a, b)")
    case True
    with Cons.prems x show ?thesis by simp
  next
    case False
    with Cons.prems x have found: "find P xs = Some (k, v)" by simp
    then have "(k, v) \<in> set xs" by (auto simp: find_Some_iff)
    with Cons.prems(1) x have "a \<noteq> k" by (auto simp: image_iff)
    with Cons x False found show ?thesis by simp
  qed
qed

lemma updateBotSettings_frame [simp]:
  "timers (snd (updateBotSettings t i f s)) = timers s"
  "activeBots (snd (updateBotSettings t i f s)) = activeBots s"
  "nextTimer (snd (updateBotSettings t i f s)) = nextTimer s"
  "apiKeys (snd (updateBotSettings t i f s)) = apiKeys s"
  "broadcasts (snd (updateBotSettings t i f s)) = broadcasts s"
  by (simp_all add: updateBotSettings_def Let_def split: option.splits)

lemma updateBotSettings_isActive:
  assumes "getBotSettingsByUserId s u = Some (i, b)"
  shows "getBotSettingsByUserId (snd (updateBotSettings t i (\<lambda>x. x\<lparr>isActive := a\<rparr>) s)) u
           = Some (i, b\<lparr>isActive := a, bs_updatedAt := t\<rparr>)"
proof -
  have look: "DAList.lookup (botSettings s) i = Some b"
    using assms unfolding getBotSettingsByUserId_def by (rule find_entries_lookup)
  have "bs_userId b = u"
    using assms by (auto simp: getBotSettingsByUserId_def find_Some_iff)
  then have "find (\<lambda>(ident, settings). bs_userId settings = u)
          (AList.update i (b\<lparr>isActive := a, bs_updatedAt := t\<rparr>) (entries (botSettings s)))
        = Some (i, b\<lparr>isActive := a, bs_updatedAt := t\<rparr>)"
    using assms
    by (intro find_update_row [where v = b]) (simp_all add: entries_distinct getBotSettingsByUserId_def)
  with look show ?thesis
    by (simp add: updateBotSettings_def getBotSettingsByUserId_def entries_update Let_def)
qed

lemma handler_timers:
  "timers (handleAlpacaWebsocketMessage c u m s) = timers s"
  "activeBots (handleAlpacaWebsocketMessage c u m s) = activeBots s"
proof -
  have "timers (handleAlpacaWebsocketMessage c u m s) = timers s
      \<and> activeBots (handleAlpacaWebsocketMessage c u m s) = activeBots s"
  proof (cases m)
    case None
    then show ?thesis by (simp add: handleAlpacaWebsocketMessage_def)
  next
    case (Some tick)
    then show ?thesis
      by (auto simp: handler_unfold Let_def decideOrder_frame upToReconciliation_frame
          split: option.splits prod.splits dest: evaluateStrategy_frame(8,9))
  qed
  then show "timers (handleAlpacaWebsocketMessage c u m s) = timers s"
    "activeBots (handleAlpacaWebsocketMessage c u m s) = activeBots s"
    by simp_all
qed

lemma initialWorld_registered: "botsRegistered (initialWorld fileLoads)"
  by (simp add: botsRegistered_def initialWorld_def entries_def empty.rep_eq)

lemmas bot_defs = startTradingBot_def stopTradingBot_def setInterval_def clearInterval_def
  initReinforcement_def updateInterval_def liveHandles_def botsRegistered_def
  handleClientMessage_def updateBotSettings_def

section \<open>The period of the scheduler\<close>

text \<open>
  C8. The period of the recurring update is looked up from the trading frequency of the
  settings alone: 300000 ms for \<^verbatim>\<open>low\<close>, 60000 ms for \<^verbatim>\<open>medium\<close>, 10000 ms for
  \<^verbatim>\<open>high\<close>, and the default of 60000 ms for any other value. When \<^verbatim>\<open>startTradingBot\<close> gets
  past its guard (a stored API key and active settings), the one timer it leaves for the
  user has the period of that look-up.
\<close>

theorem scheduler_period_lookup:
  "updateInterval ''low'' = 300000 \<and> updateInterval ''medium'' = 60000 \<and> updateInterval ''high'' = 10000
   \<and> (frequency \<notin> {''low'', ''medium'', ''high''} \<longrightarrow> updateInterval frequency = 60000)
   \<and> (botsRegistered s \<and> getApiKeyByUserId s userId = Some keyRow
        \<and> getBotSettingsByUserId s userId = Some (settingsId, settings) \<and> isActive settings
      \<longrightarrow> liveHandles (startTradingBot c userId s) userId = [nextTimer s]
          \<and> DAList.lookup (timers (startTradingBot c userId s)) (nextTimer s)
              = Some \<lparr>tm_userId = userId, tm_period = updateInterval (tradingFrequency settings)\<rparr>)"
  by (auto simp: updateInterval_def startTradingBot_started)

theorem scheduler_period_lookup_witness:
  "getApiKeyByUserId (sampleWorld True False ''any'' ''high'') 1 = Some (1, paperKey)
   \<and> getBotSettingsByUserId (sampleWorld True False ''any'' ''high'') 1 = Some (1, activeSettings ''any'' ''high'')
   \<and> liveHandles (startTradingBot (sampleCollaborators createStrategy (\<lambda>r. Inr (filledOrder r))) 1
                     (sampleWorld True False ''any'' ''high'')) 1 = [1]
   \<and> DAList.lookup (timers (startTradingBot (sampleCollaborators createStrategy (\<lambda>r. Inr (filledOrder r))) 1
                               (sampleWorld True False ''any'' ''high''))) 1
       = Some \<lparr>tm_userId = 1, tm_period = 10000\<rparr>
   \<and> ''daily'' \<notin> {''low'', ''medium'', ''high''} \<and> updateInterval ''daily'' = 60000"
proof -
  let ?s = "sampleWorld True False ''any'' ''high''"
  let ?c = "sampleCollaborators createStrategy (\<lambda>r. Inr (filledOrder r))"
  have reg: "botsRegistered ?s"
    by (simp add: run_defs botsRegistered_def)
  have key: "getApiKeyByUserId ?s 1 = Some (1, paperKey)"
    by (simp add: run_defs)
  have settings: "getBotSettingsByUserId ?s 1 = Some (1, activeSettings ''any'' ''high'')"
    "isActive (activeSettings ''any'' ''high'')" "tradingFrequency (activeSettings ''any'' ''high'') = ''high''"
    by (simp_all add: run_defs)
  have n: "nextTimer ?s = 1"
    by (simp add: sampleWorld_def initialWorld_def)
  have other: "''daily'' \<notin> {''low'', ''medium'', ''high''}"
    by simp
  from scheduler_period_lookup [of "''daily''" ?s 1 "(1, paperKey)" 1 "activeSettings ''any'' ''high''" ?c]
    reg key settings n other
  show ?thesis by simp
qed

section \<open>Starts that nobody waits for\<close>

text \<open>
  The pieces of \<^verbatim>\<open>startTradingBot\<close>, run one after the other with nothing in between, are
  the function as a whole. There are at most five of them.
\<close>

lemma startTradingBot_pieces:
  "startTradingBot_alone 5 c (case startTradingBot_call u s of (s0, t) \<Rightarrow> (s0, Some t))
     = startTradingBot c u s"
  by (simp add: eval_nat_numeral startTradingBot_call_def startTradingBot_def Let_def
      initReinforcement_def loadModel_def split: option.splits prod.splits)

lemmas task_defs = run_def resumeTask_def startTradingBot_call_def

subsection \<open>Two starts that overlap\<close>

text \<open>
  When the first start has returned before the second is called, the second clears the
  timer of the first: for user 1 with a stored API key and active settings, timer 2 alone
  is live after two \<^verbatim>\<open>startBot\<close> messages handled one after the other.
\<close>

lemma starts_one_after_the_other:
  "(let c = sampleCollaborators createStrategy (\<lambda>r. Inr (filledOrder r));
        p = run (sampleWorld True False ''any'' ''low'', [])
              (map (Pair c)
                 [Message (Some 1) StartBot, Resume 0, Resume 0, Resume 0, Resume 0, Resume 0,
                  Message (Some 1) StartBot, Resume 0, Resume 0, Resume 0, Resume 0, Resume 0])
    in liveHandles (fst p) 1 = [2]
       \<and> DAList.lookup (activeBots (fst p)) 1 = Some 2
       \<and> snd p = [])"
  by (simp add: run_defs bot_defs task_defs)

text \<open>
  C3. The code does not keep a user to one live scheduler timer when a second start is
  called while the first is suspended. User 1 has a stored API key and active settings that
  select the learned-model strategy, and the model file is there to load. A \<^verbatim>\<open>startBot\<close>
  message arrives; its listener updates the settings and calls \<^verbatim>\<open>startTradingBot\<close>, which
  runs \<^verbatim>\<open>stopTradingBot\<close> while no timer is registered, passes its guard and waits for
  \<^verbatim>\<open>loadModel\<close> (line 302). A second \<^verbatim>\<open>startBot\<close> message arrives and its start gets to the
  same \<^verbatim>\<open>await\<close>: it has run \<^verbatim>\<open>stopTradingBot\<close> too, and still no timer was registered.
  Then the first start runs on to its end and the second after it, and each makes a timer
  and registers it. At the end the timers 1 and 2 are both live for user 1 and nothing is
  left suspended; \<^verbatim>\<open>activeBots\<close> holds timer 2 alone, so \<^verbatim>\<open>stopTradingBot\<close> clears that one
  and leaves timer 1 live.
\<close>

theorem overlapping_starts_leave_two_timers:
  "(let c = (sampleCollaborators createStrategy (\<lambda>r. Inr (filledOrder r)))\<lparr>modelFileLoads := True\<rparr>;
        p = run (sampleWorld True False ''reinforcement'' ''low'', [])
              (map (Pair c)
                 [Message (Some 1) StartBot, Resume 0, Resume 0, Resume 0, Resume 0,
                  Message (Some 1) StartBot, Resume 1, Resume 1, Resume 1, Resume 1,
                  Resume 0, Resume 0, Resume 0,
                  Resume 0, Resume 0, Resume 0])
    in liveHandles (fst p) 1 = [1, 2]
       \<and> DAList.lookup (activeBots (fst p)) 1 = Some 2
       \<and> snd p = []
       \<and> liveHandles (stopTradingBot 1 (fst p)) 1 = [1])"
  by (simp add: run_defs bot_defs task_defs)

subsection \<open>A stop during a start\<close>

text \<open>
  When the start has returned before the \<^verbatim>\<open>stopBot\<close> message arrives, the stop clears its
  timer and has the last word.
\<close>

lemma stop_after_start:
  "(let c = sampleCollaborators createStrategy (\<lambda>r. Inr (filledOrder r));
        p = run (sampleWorld True False ''any'' ''low'', [])
              (map (Pair c)
                 [Message (Some 1) StartBot, Resume 0, Resume 0, Resume 0, Resume 0, Resume 0,
                  Message (Some 1) StopBot, Resume 0, Resume 0, Resume 0])
    in getBotSettingsByUserId (fst p) 1
         = Some (1, (activeSettings ''any'' ''low'')\<lparr>isActive := False, bs_updatedAt := 1000\<rparr>)
       \<and> liveHandles (fst p) 1 = []
       \<and> DAList.lookup (activeBots (fst p)) 1 = None
       \<and> map snd (broadcasts (fst p)) = [BotStatus True (Some ''any''), BotStatus False None]
       \<and> snd p = [])"
  by (simp add: run_defs bot_defs task_defs)

text \<open>
  C6. A \<^verbatim>\<open>startBot\<close> message followed by a \<^verbatim>\<open>stopBot\<close> message can leave a live scheduler
  timer and a last bot status of active. User 1 has a stored API key and settings that
  select the learned-model strategy, and the model file is there to load. The \<^verbatim>\<open>startBot\<close>
  message arrives; its listener sets the settings active and calls \<^verbatim>\<open>startTradingBot\<close>,
  which reads the active settings, passes its guard and waits for \<^verbatim>\<open>loadModel\<close> (line
  302). The \<^verbatim>\<open>stopBot\<close> message arrives and its listener runs to its end: it sets the
  settings inactive, finds no timer to clear, writes its log line and broadcasts the bot
  status with \<^verbatim>\<open>isActive\<close> false. Then the start runs on with the settings it read: it
  broadcasts the bot status with \<^verbatim>\<open>isActive\<close> true, makes timer 1 and registers it. At
  the end the settings are inactive, timer 1 is live for user 1, the last broadcast says
  active, and nothing is left suspended.
\<close>

theorem stop_during_start_leaves_timer:
  "(let c = (sampleCollaborators createStrategy (\<lambda>r. Inr (filledOrder r)))\<lparr>modelFileLoads := True\<rparr>;
        p = run (sampleWorld True False ''reinforcement'' ''low'', [])
              (map (Pair c)
                 [Message (Some 1) StartBot, Resume 0, Resume 0, Resume 0, Resume 0,
                  Message (Some 1) StopBot, Resume 1, Resume 1, Resume 1,
                  Resume 0, Resume 0, Resume 0])
    in getBotSettingsByUserId (fst p) 1
         = Some (1, (activeSettings ''reinforcement'' ''low'')\<lparr>isActive := False, bs_updatedAt := 1000\<rparr>)
       \<and> liveHandles (fst p) 1 = [1]
       \<and> DAList.lookup (activeBots (fst p)) 1 = Some 1
       \<and> map snd (broadcasts (fst p)) = [BotStatus False None, BotStatus True (Some ''reinforcement'')]
       \<and> snd p = [])"
  by (simp add: run_defs bot_defs task_defs)

end
